theory Spec2Isabelle
  imports Main "HOL-Library.Sublist"
begin

section \<open>The realtime kanban server (src/realtime-server.js, third program of the file)\<close>

text \<open>
  The source file holds three generations of the server; the development embeds the last
  one (PostgreSQL + Socket.io, from \<^verbatim>\<open>initDatabase\<close> on), which is the one the
  specification describes. Each JavaScript function becomes a HOL function of the same
  name over an explicit \<open>world\<close>: the clock, the database behind \<^verbatim>\<open>pgClient\<close>,
  the file \<^verbatim>\<open>tasks.json\<close>, the flag \<^verbatim>\<open>usePostgres\<close> and the Socket.io
  server \<^verbatim>\<open>io\<close>. A handler runs to completion: interleavings of several requests
  at their \<^verbatim>\<open>await\<close> points are not part of the model.
\<close>

subsection \<open>JavaScript values\<close>

text \<open>
  A task is a JSON object whose fields hold JSON scalars. Numbers are the integers (task
  ids and millisecond timestamps); fractions, nested objects and arrays are outside the
  type. A key that is absent reads as \<^verbatim>\<open>undefined\<close>, which is \<open>None\<close>.
\<close>

datatype jsval = JNull | JBool bool | JNum int | JStr string

type_synonym jsobj = "string \<rightharpoonup> jsval"

datatype exn = TypeError | QueryError | IOError

fun truthy :: "jsval option \<Rightarrow> bool" where
  "truthy None = False"
| "truthy (Some JNull) = False"
| "truthy (Some (JBool b)) = b"
| "truthy (Some (JNum n)) = (n \<noteq> 0)"
| "truthy (Some (JStr s)) = (s \<noteq> [])"

definition js_or :: "jsval option \<Rightarrow> jsval option \<Rightarrow> jsval option" where
  \<comment> \<open>\<^verbatim>\<open>a || b\<close>\<close>
  "js_or a b = (if truthy a then a else b)"

subsection \<open>Strings\<close>

text \<open>
  A string is a list of characters, read as ASCII: the white space that number conversion
  trims is the ASCII white space, and case conversion is that of the ASCII letters.
\<close>

definition toLowerChar :: "char \<Rightarrow> char" where
  "toLowerChar c =
     (case map_of (zip ''ABCDEFGHIJKLMNOPQRSTUVWXYZ'' ''abcdefghijklmnopqrstuvwxyz'') c of
        Some l \<Rightarrow> l
      | None \<Rightarrow> c)"

definition toLowerCase :: "jsval option \<Rightarrow> exn + string" where
  \<comment> \<open>\<^verbatim>\<open>v.toLowerCase()\<close>: only a string has the method\<close>
  "toLowerCase v = (case v of Some (JStr s) \<Rightarrow> Inr (map toLowerChar s) | _ \<Rightarrow> Inl TypeError)"

fun includes_str :: "string \<Rightarrow> string \<Rightarrow> bool" where
  \<comment> \<open>\<^verbatim>\<open>s.includes(sub)\<close>\<close>
  "includes_str [] sub = (sub = [])"
| "includes_str (c # cs) sub = (prefix sub (c # cs) \<or> includes_str cs sub)"

fun show_nat :: "nat \<Rightarrow> string" where
  "show_nat n =
     (if n < 10 then [''0123456789'' ! n]
      else show_nat (n div 10) @ [''0123456789'' ! (n mod 10)])"

declare show_nat.simps [simp del]

definition show_int :: "int \<Rightarrow> string" where
  "show_int i = (if i < 0 then CHR ''-'' # show_nat (nat (- i)) else show_nat (nat i))"

fun ToString :: "jsval option \<Rightarrow> string" where
  \<comment> \<open>the conversion a template literal applies to \<^verbatim>\<open>${v}\<close>\<close>
  "ToString None = ''undefined''"
| "ToString (Some JNull) = ''null''"
| "ToString (Some (JBool b)) = (if b then ''true'' else ''false'')"
| "ToString (Some (JNum n)) = show_int n"
| "ToString (Some (JStr s)) = s"

definition digit_val :: "char \<Rightarrow> nat option" where
  "digit_val c = map_of (zip ''0123456789'' [0, 1, 2, 3, 4, 5, 6, 7, 8, 9]) c"

fun decimal :: "nat \<Rightarrow> string \<Rightarrow> nat option" where
  "decimal acc [] = Some acc"
| "decimal acc (c # cs) =
     (case digit_val c of None \<Rightarrow> None | Some d \<Rightarrow> decimal (10 * acc + d) cs)"

definition signed_decimal :: "string \<Rightarrow> int option" where
  \<comment> \<open>an optional sign and at least one decimal digit\<close>
  "signed_decimal s =
     (case s of
        [] \<Rightarrow> None
      | c # ds \<Rightarrow>
          if c = CHR ''-'' then (if ds = [] then None else map_option (\<lambda>n. - int n) (decimal 0 ds))
          else if c = CHR ''+'' then (if ds = [] then None else map_option int (decimal 0 ds))
          else map_option int (decimal 0 s))"

definition is_space :: "char \<Rightarrow> bool" where
  "is_space c = (c \<in> set [CHR '' '', CHR 0x09, CHR 0x0A, CHR 0x0B, CHR 0x0C, CHR 0x0D])"

definition trim :: "string \<Rightarrow> string" where
  "trim s = rev (dropWhile is_space (rev (dropWhile is_space s)))"

definition is_digit :: "char \<Rightarrow> bool" where
  "is_digit c = (digit_val c \<noteq> None)"

definition exponent_part :: "string \<Rightarrow> int option" where
  \<comment> \<open>the value of an exponent \<^verbatim>\<open>e\<close>, sign, digits; 0 when there is none; \<open>None\<close>
      when what follows the mantissa is anything else\<close>
  "exponent_part s =
     (case s of
        [] \<Rightarrow> Some 0
      | c # r \<Rightarrow> if c = CHR ''e'' \<or> c = CHR ''E'' then signed_decimal r else None)"

definition rounds_above_zero :: "nat \<Rightarrow> int \<Rightarrow> bool" where
  \<comment> \<open>\<open>m * 10 ^ x\<close> is a positive double: it is more than half of the least positive one,
      which is \<open>2 ^ -1074\<close>\<close>
  "rounds_above_zero m x = (0 < m \<and> (0 \<le> x \<or> 10 ^ nat (- x) < m * 2 ^ 1075))"

definition decimal_gt0 :: "string \<Rightarrow> bool" where
  \<comment> \<open>an unsigned decimal literal (digits, an optional point and fraction, an optional
      exponent, with a digit before or after the point) whose value is above zero\<close>
  "decimal_gt0 s =
     (let ip = takeWhile is_digit s;
          r1 = dropWhile is_digit s;
          fp = (case r1 of [] \<Rightarrow> [] | c # r \<Rightarrow> if c = CHR ''.'' then takeWhile is_digit r else []);
          r2 = (case r1 of [] \<Rightarrow> [] | c # r \<Rightarrow> if c = CHR ''.'' then dropWhile is_digit r else r1)
      in if ip = [] \<and> fp = [] then False
         else (case (decimal 0 (ip @ fp), exponent_part r2) of
                 (Some m, Some e) \<Rightarrow> rounds_above_zero m (e - int (length fp))
               | _ \<Rightarrow> False))"

definition radix_gt0 :: "string \<Rightarrow> string \<Rightarrow> bool" where
  \<comment> \<open>the digits after \<^verbatim>\<open>0x\<close>, \<^verbatim>\<open>0o\<close> or \<^verbatim>\<open>0b\<close>: at least one, all of the radix,
      not all zero\<close>
  "radix_gt0 digits ds =
     (ds \<noteq> [] \<and> list_all (\<lambda>c. c \<in> set digits) ds \<and> list_ex (\<lambda>c. c \<noteq> CHR ''0'') ds)"

definition string_gt0 :: "string \<Rightarrow> bool" where
  \<comment> \<open>\<^verbatim>\<open>s > 0\<close> for a string: the string is read as a numeric literal (white space
      trimmed, the empty string being 0) and anything else is NaN, which is above nothing\<close>
  "string_gt0 s =
     (case trim s of
        [] \<Rightarrow> False
      | c # r \<Rightarrow>
          if c = CHR ''-'' then False
          else if c = CHR ''+'' then r = ''Infinity'' \<or> decimal_gt0 r
          else if c # r = ''Infinity'' then True
          else (case r of
                  [] \<Rightarrow> decimal_gt0 [c]
                | x # ds \<Rightarrow>
                    if c = CHR ''0'' \<and> (x = CHR ''x'' \<or> x = CHR ''X'')
                    then radix_gt0 ''0123456789abcdefABCDEF'' ds
                    else if c = CHR ''0'' \<and> (x = CHR ''o'' \<or> x = CHR ''O'')
                    then radix_gt0 ''01234567'' ds
                    else if c = CHR ''0'' \<and> (x = CHR ''b'' \<or> x = CHR ''B'')
                    then radix_gt0 ''01'' ds
                    else decimal_gt0 (c # r)))"

fun js_gt0 :: "jsval option \<Rightarrow> bool" where
  \<comment> \<open>\<^verbatim>\<open>v > 0\<close>, after the conversion of \<open>v\<close> to a number; false when that is NaN\<close>
  "js_gt0 None = False"
| "js_gt0 (Some JNull) = False"
| "js_gt0 (Some (JBool b)) = b"
| "js_gt0 (Some (JNum n)) = (0 < n)"
| "js_gt0 (Some (JStr s)) = string_gt0 s"

fun findIndex :: "('a \<Rightarrow> bool) \<Rightarrow> 'a list \<Rightarrow> nat option" where
  \<comment> \<open>\<^verbatim>\<open>xs.findIndex(p)\<close>; \<open>None\<close> is -1\<close>
  "findIndex p [] = None"
| "findIndex p (x # xs) = (if p x then Some 0 else map_option Suc (findIndex p xs))"

subsection \<open>The table \<^verbatim>\<open>tasks\<close>\<close>

text \<open>
  The columns are those of the \<^verbatim>\<open>CREATE TABLE\<close> statement of \<^verbatim>\<open>initDatabase\<close>:
  \<^verbatim>\<open>id SERIAL PRIMARY KEY\<close>, \<^verbatim>\<open>title VARCHAR(500) NOT NULL\<close>, nullable text columns
  and two nullable \<^verbatim>\<open>BIGINT\<close> timestamps. \<open>serial\<close> is the next value of the sequence
  behind \<^verbatim>\<open>id\<close>; a \<^verbatim>\<open>SERIAL\<close> column is a four-byte integer, so the sequence ends
  at 2147483647.
\<close>

record row =
  row_id :: int
  title :: string
  description :: "string option"
  column_name :: "string option"
  tag :: "string option"
  assignee :: "string option"
  priority :: "string option"
  emoji :: "string option"
  due_date :: "string option"
  created_at :: "int option"
  updated_at :: "int option"

record table =
  rows :: "row list"
  serial :: int

datatype sql =
    SELECT_tasks          \<comment> \<open>\<^verbatim>\<open>SELECT * FROM tasks ORDER BY id DESC\<close>\<close>
  | UPDATE_tasks "string list"
                          \<comment> \<open>\<^verbatim>\<open>UPDATE tasks SET c1 = $1, ... WHERE id = $n\<close>, the columns in order\<close>
  | INSERT_tasks          \<comment> \<open>the ten-column \<^verbatim>\<open>INSERT INTO tasks\<close>\<close>
  | DELETE_tasks          \<comment> \<open>\<^verbatim>\<open>DELETE FROM tasks WHERE id = $1\<close>\<close>

fun param_text :: "jsval option \<Rightarrow> string option" where
  \<comment> \<open>a query parameter as the driver sends it to a text column; \<open>None\<close> is SQL NULL\<close>
  "param_text None = None"
| "param_text (Some JNull) = None"
| "param_text (Some (JBool b)) = Some (if b then ''true'' else ''false'')"
| "param_text (Some (JNum n)) = Some (show_int n)"
| "param_text (Some (JStr s)) = Some s"

fun param_int :: "jsval option \<Rightarrow> exn + int option" where
  \<comment> \<open>a query parameter read by an integer column: a number as itself, a string through
      the integer input syntax, a boolean not at all\<close>
  "param_int None = Inr None"
| "param_int (Some JNull) = Inr None"
| "param_int (Some (JBool b)) = Inl QueryError"
| "param_int (Some (JNum n)) = Inr (Some n)"
| "param_int (Some (JStr s)) =
     (case signed_decimal (trim s) of None \<Rightarrow> Inl QueryError | Some n \<Rightarrow> Inr (Some n))"

definition in_int4 :: "int \<Rightarrow> bool" where
  \<comment> \<open>the range of a four-byte integer, the type of the column \<^verbatim>\<open>id\<close>\<close>
  "in_int4 n = (- 2147483648 \<le> n \<and> n \<le> 2147483647)"

definition param_int4 :: "jsval option \<Rightarrow> exn + int option" where
  \<comment> \<open>the parameter compared with \<^verbatim>\<open>id\<close>: outside the range of the column the
      statement is rejected\<close>
  "param_int4 v =
     (case param_int v of
        Inl e \<Rightarrow> Inl e
      | Inr None \<Rightarrow> Inr None
      | Inr (Some n) \<Rightarrow> if in_int4 n then Inr (Some n) else Inl QueryError)"

definition assign :: "string \<Rightarrow> jsval option \<Rightarrow> row \<Rightarrow> exn + row" where
  \<comment> \<open>one item \<^verbatim>\<open>c = $k\<close> of a SET list, on one row\<close>
  "assign c v r =
     (if c = ''column_name'' then Inr (r\<lparr>column_name := param_text v\<rparr>)
      else if c = ''title'' then
        (case param_text v of None \<Rightarrow> Inl QueryError | Some s \<Rightarrow> Inr (r\<lparr>title := s\<rparr>))
      else if c = ''description'' then Inr (r\<lparr>description := param_text v\<rparr>)
      else if c = ''updated_at'' then
        (case param_int v of Inl e \<Rightarrow> Inl e | Inr n \<Rightarrow> Inr (r\<lparr>updated_at := n\<rparr>))
      else Inl QueryError)"

fun set_columns :: "(string \<times> jsval option) list \<Rightarrow> row \<Rightarrow> exn + row" where
  "set_columns [] r = Inr r"
| "set_columns ((c, v) # cvs) r =
     (case assign c v r of Inl e \<Rightarrow> Inl e | Inr r' \<Rightarrow> set_columns cvs r')"

fun update_where :: "int \<Rightarrow> (row \<Rightarrow> exn + row) \<Rightarrow> row list \<Rightarrow> exn + row list" where
  "update_where n f [] = Inr []"
| "update_where n f (r # rs) =
     (case (if row_id r = n then f r else Inr r) of
        Inl e \<Rightarrow> Inl e
      | Inr r' \<Rightarrow> (case update_where n f rs of Inl e \<Rightarrow> Inl e | Inr rs' \<Rightarrow> Inr (r' # rs')))"

definition exec_update :: "string list \<Rightarrow> jsval option list \<Rightarrow> table \<Rightarrow> exn + table" where
  \<comment> \<open>PostgreSQL rejects a SET list that names a column twice
      (\<^verbatim>\<open>multiple assignments to same column\<close>)\<close>
  "exec_update cols params t =
     (if distinct cols \<and> length params = Suc (length cols) then
        (case param_int4 (last params) of
           Inl e \<Rightarrow> Inl e
         | Inr None \<Rightarrow> Inr t
         | Inr (Some n) \<Rightarrow>
             (case update_where n (set_columns (zip cols params)) (rows t) of
                Inl e \<Rightarrow> Inl e
              | Inr rs \<Rightarrow> Inr (t\<lparr>rows := rs\<rparr>)))
      else Inl QueryError)"

definition exec_insert :: "jsval option list \<Rightarrow> table \<Rightarrow> exn + table" where
  "exec_insert params t =
     (if length params = 10 then
        (case (param_text (params ! 0), param_int (params ! 8), param_int (params ! 9)) of
          (Some ti, Inr c, Inr u) \<Rightarrow>
            if 2147483647 < serial t then Inl QueryError
            else Inr (t\<lparr>rows := rows t @
                   [\<lparr>row_id = serial t, title = ti,
                     description = param_text (params ! 1),
                     column_name = param_text (params ! 2),
                     tag = param_text (params ! 3),
                     assignee = param_text (params ! 4),
                     priority = param_text (params ! 5),
                     emoji = param_text (params ! 6),
                     due_date = param_text (params ! 7),
                     created_at = c, updated_at = u\<rparr>],
                   serial := serial t + 1\<rparr>)
        | _ \<Rightarrow> Inl QueryError)
      else Inl QueryError)"

definition exec_delete :: "jsval option list \<Rightarrow> table \<Rightarrow> exn + table" where
  "exec_delete params t =
     (case params of
        [p] \<Rightarrow>
          (case param_int4 p of
             Inl e \<Rightarrow> Inl e
           | Inr None \<Rightarrow> Inr t
           | Inr (Some n) \<Rightarrow> Inr (t\<lparr>rows := filter (\<lambda>r. row_id r \<noteq> n) (rows t)\<rparr>))
      | _ \<Rightarrow> Inl QueryError)"

definition select_all :: "table \<Rightarrow> row list" where
  \<comment> \<open>\<^verbatim>\<open>ORDER BY id DESC\<close>\<close>
  "select_all t = rev (sort_key row_id (rows t))"

definition exec :: "sql \<Rightarrow> jsval option list \<Rightarrow> table \<Rightarrow> exn + (row list \<times> table)" where
  \<comment> \<open>the rows of the result and the table afterwards\<close>
  "exec q params t =
     (case q of
        SELECT_tasks \<Rightarrow> Inr (select_all t, t)
      | UPDATE_tasks cols \<Rightarrow> map_sum (\<lambda>e. e) (\<lambda>t'. ([], t')) (exec_update cols params t)
      | INSERT_tasks \<Rightarrow> map_sum (\<lambda>e. e) (\<lambda>t'. ([], t')) (exec_insert params t)
      | DELETE_tasks \<Rightarrow> map_sum (\<lambda>e. e) (\<lambda>t'. ([], t')) (exec_delete params t))"

subsection \<open>The world\<close>

datatype event =
    Tasks_update "jsobj list" int     \<comment> \<open>\<^verbatim>\<open>'tasks:update'\<close> with \<^verbatim>\<open>{tasks, timestamp}\<close>\<close>
  | Clawd_task jsobj string int       \<comment> \<open>\<^verbatim>\<open>'clawd:task'\<close> with \<^verbatim>\<open>{task, message, timestamp}\<close>\<close>

record server =
  sockets :: "string list"            \<comment> \<open>the ids of the connected sessions\<close>
  inbox :: "string \<Rightarrow> event list"     \<comment> \<open>what each session has been sent, oldest first\<close>

datatype tasks_json = Missing | Garbage | Doc "jsobj list"

text \<open>
  \<open>clock\<close> is the sequence of values that successive calls of \<^verbatim>\<open>Date.now()\<close> return
  and \<open>ticks\<close> the number of calls made. \<open>pg_fault\<close> says which queries, counted by
  \<open>pg_calls\<close>, the database refuses for a reason the table model does not compute,
  such as a lost connection or a text longer than its \<^verbatim>\<open>VARCHAR\<close> column. The range
  of the column \<^verbatim>\<open>id\<close> is computed: a statement whose id parameter is outside it is
  refused. The timestamps the server writes are clock readings, far inside the range of
  \<^verbatim>\<open>BIGINT\<close>.
\<close>

record world =
  clock :: "nat \<Rightarrow> int"
  ticks :: nat
  pgClient :: "table option"
  pg_fault :: "nat \<Rightarrow> bool"
  pg_calls :: nat
  usePostgres :: bool
  io :: "server option"
  tasks_file :: tasks_json
  fs_read_fault :: bool
  fs_write_fault :: bool

definition Date_now :: "world \<Rightarrow> int \<times> world" where
  "Date_now w = (clock w (ticks w), w\<lparr>ticks := Suc (ticks w)\<rparr>)"

definition pg_query :: "sql \<Rightarrow> jsval option list \<Rightarrow> world \<Rightarrow> (exn + row list) \<times> world" where
  \<comment> \<open>\<^verbatim>\<open>await pgClient.query(text, values)\<close>; \<^verbatim>\<open>pgClient\<close> may be null\<close>
  "pg_query q params w =
     (case pgClient w of
        None \<Rightarrow> (Inl TypeError, w)
      | Some t \<Rightarrow>
          if pg_fault w (pg_calls w) then (Inl QueryError, w\<lparr>pg_calls := Suc (pg_calls w)\<rparr>)
          else (case exec q params t of
                  Inl e \<Rightarrow> (Inl e, w\<lparr>pg_calls := Suc (pg_calls w)\<rparr>)
                | Inr (res, t') \<Rightarrow>
                    (Inr res, w\<lparr>pg_calls := Suc (pg_calls w), pgClient := Some t'\<rparr>)))"

definition emit :: "event \<Rightarrow> server \<Rightarrow> server" where
  \<comment> \<open>\<^verbatim>\<open>io.emit(...)\<close>: to every connected session\<close>
  "emit e s = s\<lparr>inbox := (\<lambda>c. if c \<in> set (sockets s) then inbox s c @ [e] else inbox s c)\<rparr>"

subsection \<open>The PostgreSQL store\<close>

definition bigint_val :: "int option \<Rightarrow> jsval" where
  \<comment> \<open>the driver hands a \<^verbatim>\<open>BIGINT\<close> to JavaScript as a decimal string\<close>
  "bigint_val n = (case n of None \<Rightarrow> JNull | Some i \<Rightarrow> JStr (show_int i))"

definition text_val :: "string option \<Rightarrow> jsval" where
  "text_val s = (case s of None \<Rightarrow> JNull | Some x \<Rightarrow> JStr x)"

definition row_to_task :: "row \<Rightarrow> jsobj" where
  \<comment> \<open>the arrow function of \<^verbatim>\<open>result.rows.map\<close> in \<^verbatim>\<open>getTasksPG\<close>\<close>
  "row_to_task r =
     [''id'' \<mapsto> JNum (row_id r),
      ''title'' \<mapsto> JStr (title r),
      ''description'' \<mapsto> text_val (description r),
      ''column'' \<mapsto> text_val (column_name r),
      ''tag'' \<mapsto> text_val (tag r),
      ''assignee'' \<mapsto> text_val (assignee r),
      ''priority'' \<mapsto> text_val (priority r),
      ''emoji'' \<mapsto> text_val (emoji r),
      ''dueDate'' \<mapsto> text_val (due_date r),
      ''createdAt'' \<mapsto> bigint_val (created_at r),
      ''updatedAt'' \<mapsto> bigint_val (updated_at r)]"

definition getTasksPG_try :: "world \<Rightarrow> (exn + jsobj list) \<times> world" where
  \<comment> \<open>the body of the \<^verbatim>\<open>try\<close> block\<close>
  "getTasksPG_try w =
     (case pg_query SELECT_tasks [] w of
        (Inl e, w') \<Rightarrow> (Inl e, w')
      | (Inr rs, w') \<Rightarrow> (Inr (map row_to_task rs), w'))"

definition getTasksPG :: "world \<Rightarrow> jsobj list \<times> world" where
  "getTasksPG w =
     (case getTasksPG_try w of
        (Inl e, w') \<Rightarrow> ([], w')
      | (Inr tasks, w') \<Rightarrow> (tasks, w'))"

definition set_clause :: "jsobj \<Rightarrow> (string \<times> jsval option) list" where
  \<comment> \<open>\<^verbatim>\<open>updates\<close> and \<^verbatim>\<open>values\<close>, which the source pushes to in step, before the
      timestamp is added\<close>
  "set_clause task =
     (if task ''column'' \<noteq> None then [(''column_name'', task ''column'')] else []) @
     (if task ''title'' \<noteq> None then [(''title'', task ''title'')] else []) @
     (if task ''description'' \<noteq> None then [(''description'', task ''description'')] else []) @
     (if task ''updatedAt'' \<noteq> None then [(''updated_at'', task ''updatedAt'')] else [])"

definition clawd_message :: "jsobj \<Rightarrow> string" where
  \<comment> \<open>the template literal of the notification; the clipboard emoji as its four UTF-8 bytes\<close>
  "clawd_message task =
     [CHR 0xF0, CHR 0x9F, CHR 0x93, CHR 0x8B] @ '' Nova task para Clawd: '' @ ToString (task ''title'')"

definition broadcastClawdNotification :: "jsobj \<Rightarrow> world \<Rightarrow> (exn + unit) \<times> world" where
  "broadcastClawdNotification task w =
     (case io w of
        None \<Rightarrow> (Inr (), w)
      | Some s \<Rightarrow>
          if \<not> usePostgres w then (Inr (), w)
          else (case toLowerCase (js_or (task ''assignee'') (Some (JStr []))) of
                  Inl e \<Rightarrow> (Inl e, w)
                | Inr assignee' \<Rightarrow>
                    if includes_str assignee' ''clawd'' \<or> includes_str assignee' ''jarvis'' then
                      (let (now, w1) = Date_now w
                       in (Inr (), w1\<lparr>io := Some (emit (Clawd_task task (clawd_message task) now) s)\<rparr>))
                    else (Inr (), w)))"

definition saveTaskPG_update :: "jsobj \<Rightarrow> world \<Rightarrow> (exn + bool) \<times> world" where
  \<comment> \<open>the branch \<^verbatim>\<open>task.id && task.id > 0\<close>\<close>
  "saveTaskPG_update task w =
     (let (timestamp, w1) = Date_now w;
          sets = set_clause task @ [(''updated_at'', Some (JNum timestamp))];
          updates = map fst sets;
          params = map snd sets @ [task ''id'']
      in if 0 < length updates then
           (case pg_query (UPDATE_tasks updates) params w1 of
              (Inl e, w2) \<Rightarrow> (Inl e, w2)
            | (Inr res, w2) \<Rightarrow> (Inr True, w2))
         else (Inr True, w1))"

definition saveTaskPG_insert :: "jsobj \<Rightarrow> world \<Rightarrow> (exn + bool) \<times> world" where
  \<comment> \<open>the \<^verbatim>\<open>else\<close> branch\<close>
  "saveTaskPG_insert task w =
     (let (created, w1) = Date_now w;
          (updated, w2) = Date_now w1
      in case pg_query INSERT_tasks
                [js_or (task ''title'') (Some (JStr [])),
                 js_or (task ''description'') (Some (JStr [])),
                 js_or (task ''column'') (Some (JStr ''backlog'')),
                 js_or (task ''tag'') (Some (JStr [])),
                 js_or (task ''assignee'') (Some (JStr [])),
                 js_or (task ''priority'') (Some (JStr ''medium'')),
                 js_or (task ''emoji'') (Some (JStr [])),
                 js_or (task ''dueDate'') (Some (JStr [])),
                 Some (JNum created), Some (JNum updated)] w2 of
           (Inl e, w3) \<Rightarrow> (Inl e, w3)
         | (Inr res, w3) \<Rightarrow>
             (case toLowerCase (js_or (task ''assignee'') (Some (JStr []))) of
                Inl e \<Rightarrow> (Inl e, w3)
              | Inr assignee' \<Rightarrow>
                  if includes_str assignee' ''clawd'' \<or> includes_str assignee' ''jarvis'' then
                    (let (now, w4) = Date_now w3;
                         newTask = task(''id'' \<mapsto> JNum now)
                     in case broadcastClawdNotification newTask w4 of
                          (Inl e, w5) \<Rightarrow> (Inl e, w5)
                        | (Inr u, w5) \<Rightarrow> (Inr True, w5))
                  else (Inr True, w3)))"

definition saveTaskPG_try :: "jsobj \<Rightarrow> world \<Rightarrow> (exn + bool) \<times> world" where
  "saveTaskPG_try task w =
     (if pgClient w = None then (Inr False, w)
      else if truthy (task ''id'') \<and> js_gt0 (task ''id'') then saveTaskPG_update task w
      else saveTaskPG_insert task w)"

definition saveTaskPG :: "jsobj \<Rightarrow> world \<Rightarrow> bool \<times> world" where
  "saveTaskPG task w =
     (case saveTaskPG_try task w of
        (Inl e, w') \<Rightarrow> (False, w')
      | (Inr b, w') \<Rightarrow> (b, w'))"

definition deleteTaskPG_try :: "jsval option \<Rightarrow> world \<Rightarrow> (exn + bool) \<times> world" where
  "deleteTaskPG_try taskId w =
     (case pg_query DELETE_tasks [taskId] w of
        (Inl e, w') \<Rightarrow> (Inl e, w')
      | (Inr res, w') \<Rightarrow> (Inr True, w'))"

definition deleteTaskPG :: "jsval option \<Rightarrow> world \<Rightarrow> bool \<times> world" where
  "deleteTaskPG taskId w =
     (case deleteTaskPG_try taskId w of
        (Inl e, w') \<Rightarrow> (False, w')
      | (Inr b, w') \<Rightarrow> (b, w'))"

definition broadcastTasks :: "world \<Rightarrow> world" where
  \<comment> \<open>the query and the \<^verbatim>\<open>then\<close> callback, run as one step\<close>
  "broadcastTasks w =
     (if io w \<noteq> None \<and> usePostgres w then
        (let (tasks, w1) = getTasksPG w;
             (now, w2) = Date_now w1
         in w2\<lparr>io := map_option (emit (Tasks_update tasks now)) (io w2)\<rparr>)
      else w)"

subsection \<open>The file store\<close>

text \<open>
  \<^verbatim>\<open>tasks.json\<close> is missing, unreadable as JSON, or a document holding the task list.
\<close>

definition getTasksLocal :: "world \<Rightarrow> jsobj list" where
  "getTasksLocal w =
     (case tasks_file w of
        Missing \<Rightarrow> []
      | Garbage \<Rightarrow> []
      | Doc tasks \<Rightarrow> if fs_read_fault w then [] else tasks)"

definition saveTasksLocal :: "jsobj list \<Rightarrow> world \<Rightarrow> exn + world" where
  \<comment> \<open>no \<^verbatim>\<open>try\<close> here: \<^verbatim>\<open>fs.writeFileSync\<close> throws to the caller\<close>
  "saveTasksLocal tasks w =
     (if fs_write_fault w then Inl IOError else Inr (w\<lparr>tasks_file := Doc tasks\<rparr>))"

subsection \<open>POST /api/tasks\<close>

record mutation =
  action :: "jsval option"
  task :: "jsobj option"       \<comment> \<open>\<open>None\<close>: no \<^verbatim>\<open>task\<close> in the body, or null\<close>
  taskId :: "jsval option"

datatype response =
    Success bool int           \<comment> \<open>\<^verbatim>\<open>{success, timestamp}\<close>\<close>
  | Bad_request                \<comment> \<open>status 400 with \<^verbatim>\<open>{error}\<close>\<close>

text \<open>
  The three branches return \<^verbatim>\<open>success\<close> and whether \<^verbatim>\<open>broadcastTasks()\<close> was
  called. The call returns at once and its \<^verbatim>\<open>then\<close> callback runs after the response
  has been written, so \<open>POST_tasks\<close> reads the clock for the response first.
\<close>

definition update_action :: "jsobj \<Rightarrow> world \<Rightarrow> (exn + bool \<times> bool) \<times> world" where
  "update_action t w =
     (if usePostgres w then
        (let (now, w1) = Date_now w;
             (success, w2) = saveTaskPG (t(''updatedAt'' \<mapsto> JNum now)) w1
         in (Inr (success, success), w2))
      else
        (let tasks = getTasksLocal w
         in case findIndex (\<lambda>x. x ''id'' = t ''id'') tasks of
              None \<Rightarrow> (Inr (False, False), w)
            | Some idx \<Rightarrow>
                (let (now, w1) = Date_now w
                 in case saveTasksLocal
                           (tasks[idx := (tasks ! idx ++ t)(''updatedAt'' \<mapsto> JNum now)]) w1 of
                      Inl e \<Rightarrow> (Inl e, w1)
                    | Inr w2 \<Rightarrow> (Inr (True, False), w2))))"

definition add_action :: "jsobj \<Rightarrow> world \<Rightarrow> (exn + bool \<times> bool) \<times> world" where
  "add_action t w =
     (if usePostgres w then
        (let (created, w1) = Date_now w;
             (updated, w2) = Date_now w1;
             (success, w3) =
               saveTaskPG (t(''createdAt'' \<mapsto> JNum created, ''updatedAt'' \<mapsto> JNum updated)) w2
         in (Inr (success, success), w3))
      else
        (let tasks = getTasksLocal w;
             (new_id, w1) = Date_now w;
             (created, w2) = Date_now w1;
             (updated, w3) = Date_now w2;
             newTask = t(''id'' \<mapsto> JNum new_id, ''createdAt'' \<mapsto> JNum created,
                         ''updatedAt'' \<mapsto> JNum updated)
         in case saveTasksLocal (tasks @ [newTask]) w3 of
              Inl e \<Rightarrow> (Inl e, w3)
            | Inr w4 \<Rightarrow> (Inr (True, False), w4)))"

definition delete_action :: "jsval option \<Rightarrow> world \<Rightarrow> (exn + bool \<times> bool) \<times> world" where
  "delete_action tid w =
     (if usePostgres w then
        (let (success, w1) = deleteTaskPG tid w
         in (Inr (success, success), w1))
      else
        (let tasks = filter (\<lambda>x. x ''id'' \<noteq> tid) (getTasksLocal w)
         in case saveTasksLocal tasks w of
              Inl e \<Rightarrow> (Inl e, w)
            | Inr w1 \<Rightarrow> (Inr (True, False), w1)))"

definition POST_tasks_try :: "mutation \<Rightarrow> world \<Rightarrow> (exn + bool \<times> bool) \<times> world" where
  "POST_tasks_try data w =
     (case (action data = Some (JStr ''update''), task data) of
        (True, Some t) \<Rightarrow> update_action t w
      | _ \<Rightarrow>
        (case (action data = Some (JStr ''add''), task data) of
           (True, Some t) \<Rightarrow> add_action t w
         | _ \<Rightarrow>
           if action data = Some (JStr ''delete'') \<and> truthy (taskId data)
           then delete_action (taskId data) w
           else (Inr (False, False), w)))"

definition POST_tasks :: "mutation option \<Rightarrow> world \<Rightarrow> response \<times> world" where
  \<comment> \<open>the body is \<open>None\<close> when \<^verbatim>\<open>JSON.parse\<close> throws\<close>
  "POST_tasks body w =
     (case body of
        None \<Rightarrow> (Bad_request, w)
      | Some data \<Rightarrow>
          (case POST_tasks_try data w of
             (Inl e, w1) \<Rightarrow> (Bad_request, w1)
           | (Inr (success, broadcast), w1) \<Rightarrow>
               (let (now, w2) = Date_now w1
                in (Success success now, if broadcast then broadcastTasks w2 else w2))))"

subsection \<open>GET /api/status\<close>

record status =
  timestamp :: int
  source :: string
  total :: nat
  backlog :: nat
  progress :: nat
  done_count :: nat
  paused :: nat

definition in_column :: "string \<Rightarrow> jsobj \<Rightarrow> bool" where
  \<comment> \<open>\<^verbatim>\<open>t.column === c\<close>\<close>
  "in_column c t = (t ''column'' = Some (JStr c))"

definition status_of :: "jsobj list \<Rightarrow> int \<Rightarrow> string \<Rightarrow> status" where
  "status_of tasks now src =
     \<lparr>timestamp = now, source = src, total = length tasks,
      backlog = length (filter (in_column ''backlog'') tasks),
      progress = length (filter (in_column ''progress'') tasks),
      done_count = length (filter (in_column ''done'') tasks),
      paused = length (filter (in_column ''paused'') tasks)\<rparr>"

definition GET_status :: "world \<Rightarrow> status \<times> world" where
  "GET_status w =
     (let (tasks, w1) = (if usePostgres w then getTasksPG w else (getTasksLocal w, w));
          (now, w2) = Date_now w1
      in (status_of tasks now (if usePostgres w then ''postgresql'' else ''local''), w2))"

subsection \<open>The realtime channel\<close>

definition on_task_update :: "mutation \<Rightarrow> world \<Rightarrow> world" where
  \<comment> \<open>\<^verbatim>\<open>socket.on('task:update', ...)\<close>\<close>
  "on_task_update data w =
     (case (usePostgres w, task data) of
        (True, Some t) \<Rightarrow>
          (let (now, w1) = Date_now w;
               (success, w2) = saveTaskPG (t(''updatedAt'' \<mapsto> JNum now)) w1
           in broadcastTasks w2)
      | _ \<Rightarrow> w)"

definition on_task_add :: "mutation \<Rightarrow> world \<Rightarrow> world" where
  "on_task_add data w =
     (case (usePostgres w, task data) of
        (True, Some t) \<Rightarrow>
          (let (created, w1) = Date_now w;
               (updated, w2) = Date_now w1;
               (success, w3) =
                 saveTaskPG (t(''createdAt'' \<mapsto> JNum created, ''updatedAt'' \<mapsto> JNum updated)) w2
           in broadcastTasks w3)
      | _ \<Rightarrow> w)"

definition on_task_delete :: "mutation \<Rightarrow> world \<Rightarrow> world" where
  "on_task_delete data w =
     (if usePostgres w \<and> truthy (taskId data) then
        (let (success, w1) = deleteTaskPG (taskId data) w
         in broadcastTasks w1)
      else w)"

section \<open>Notions the properties are stated with\<close>

definition all_tasks :: "table \<Rightarrow> jsobj list" where
  \<comment> \<open>what \<^verbatim>\<open>getTasksPG\<close> lists when the query succeeds\<close>
  "all_tasks t = map row_to_task (select_all t)"

definition listed :: "world \<Rightarrow> jsobj list" where
  \<comment> \<open>the list the active store returns\<close>
  "listed w = (if usePostgres w then fst (getTasksPG w) else getTasksLocal w)"

definition known_column :: "jsobj \<Rightarrow> bool" where
  "known_column t =
     (in_column ''backlog'' t \<or> in_column ''progress'' t \<or> in_column ''done'' t \<or>
      in_column ''paused'' t)"

definition field :: "string \<Rightarrow> jsobj \<Rightarrow> jsval option" where
  \<comment> \<open>\<^verbatim>\<open>t[k]\<close>\<close>
  "field k t = t k"

definition table_ok :: "table \<Rightarrow> bool" where
  \<comment> \<open>every id in the table came out of the sequence\<close>
  "table_ok t = list_all (\<lambda>r. row_id r < serial t) (rows t)"

definition updated_row :: "jsobj \<Rightarrow> int \<Rightarrow> row \<Rightarrow> row" where
  \<comment> \<open>a row after an update from payload \<open>p\<close> at time \<open>now\<close>: the column, the title and
      the description are replaced when the payload has them, the update time is stamped,
      and nothing else changes\<close>
  "updated_row p now r =
     r\<lparr>column_name := (if p ''column'' = None then column_name r else param_text (p ''column'')),
       title := (case param_text (p ''title'') of None \<Rightarrow> title r | Some s \<Rightarrow> s),
       description :=
         (if p ''description'' = None then description r else param_text (p ''description'')),
       updated_at := Some now\<rparr>"

definition no_positive_id :: "jsobj \<Rightarrow> bool" where
  \<comment> \<open>the payload of an insert: no id, or a number that is not positive\<close>
  "no_positive_id p = (case p ''id'' of None \<Rightarrow> True | Some (JNum n) \<Rightarrow> n \<le> 0 | Some x \<Rightarrow> False)"

definition defaulted :: "string \<Rightarrow> jsval option \<Rightarrow> string" where
  \<comment> \<open>the text of a field, or \<open>d\<close> when the field is missing (or otherwise falsy)\<close>
  "defaulted d v = (if truthy v then ToString v else d)"

definition inserted_row :: "jsobj \<Rightarrow> int \<Rightarrow> int \<Rightarrow> int \<Rightarrow> row" where
  \<comment> \<open>the row an insert of payload \<open>p\<close> makes, with id \<open>n\<close> and times \<open>c\<close> and \<open>u\<close>\<close>
  "inserted_row p n c u =
     \<lparr>row_id = n,
      title = defaulted [] (p ''title''),
      description = Some (defaulted [] (p ''description'')),
      column_name = Some (defaulted ''backlog'' (p ''column'')),
      tag = Some (defaulted [] (p ''tag'')),
      assignee = Some (defaulted [] (p ''assignee'')),
      priority = Some (defaulted ''medium'' (p ''priority'')),
      emoji = Some (defaulted [] (p ''emoji'')),
      due_date = Some (defaulted [] (p ''dueDate'')),
      created_at = Some c, updated_at = Some u\<rparr>"

definition after_insert :: "jsobj \<Rightarrow> table \<Rightarrow> world \<Rightarrow> world" where
  \<comment> \<open>the world once the INSERT of \<open>saveTaskPG\<close> has been executed on table \<open>t\<close>\<close>
  "after_insert p t w =
     w\<lparr>ticks := Suc (Suc (ticks w)), pg_calls := Suc (pg_calls w),
       pgClient := Some (t\<lparr>rows := rows t @
                            [inserted_row p (serial t) (clock w (ticks w)) (clock w (Suc (ticks w)))],
                          serial := serial t + 1\<rparr>)\<rparr>"

definition text_assignee :: "jsobj \<Rightarrow> bool" where
  \<comment> \<open>the assignee is a string, or is missing (or otherwise falsy)\<close>
  "text_assignee p = (case p ''assignee'' of Some (JStr a) \<Rightarrow> True | x \<Rightarrow> \<not> truthy x)"

definition notifies :: "jsobj \<Rightarrow> bool" where
  \<comment> \<open>the assignee contains one of the two aliases, whatever the case of its letters\<close>
  "notifies p =
     (case p ''assignee'' of
        Some (JStr a) \<Rightarrow> includes_str (map toLowerChar a) ''clawd'' \<or>
                        includes_str (map toLowerChar a) ''jarvis''
      | _ \<Rightarrow> False)"

definition clawd_event :: "jsobj \<Rightarrow> world \<Rightarrow> event" where
  \<comment> \<open>the notification \<open>saveTaskPG\<close> sends for payload \<open>p\<close> when it starts in \<open>w\<close>: the
      third and fourth clock readings are the id and the timestamp\<close>
  "clawd_event p w =
     Clawd_task (p(''id'' \<mapsto> JNum (clock w (Suc (Suc (ticks w)))))) (clawd_message p)
       (clock w (Suc (Suc (Suc (ticks w)))))"

definition same_env :: "world \<Rightarrow> world \<Rightarrow> bool" where
  \<comment> \<open>the parts of the world a store operation never touches\<close>
  "same_env w w' =
     (usePostgres w' = usePostgres w \<and> clock w' = clock w \<and> pg_fault w' = pg_fault w \<and>
      tasks_file w' = tasks_file w \<and> fs_read_fault w' = fs_read_fault w \<and>
      fs_write_fault w' = fs_write_fault w)"

definition clawd_or_same :: "server option \<Rightarrow> server option \<Rightarrow> bool" where
  \<comment> \<open>the channel is as before, or one notification has been sent\<close>
  "clawd_or_same i i' =
     (i' = i \<or> (\<exists>s tk msg n. i = Some s \<and> i' = Some (emit (Clawd_task tk msg n) s)))"

definition fits :: "nat \<Rightarrow> jsval option \<Rightarrow> bool" where
  \<comment> \<open>the text sent for the value is not longer than a \<^verbatim>\<open>VARCHAR(k)\<close> column:
      \<^verbatim>\<open>title VARCHAR(500)\<close>, \<^verbatim>\<open>column_name VARCHAR(50)\<close>\<close>
  "fits k v = (case param_text v of None \<Rightarrow> True | Some s \<Rightarrow> length s \<le> k)"

definition table_list :: "world \<Rightarrow> jsobj list" where
  \<comment> \<open>what \<^verbatim>\<open>getTasksPG\<close> returns in state \<open>x\<close>: the whole table, or the empty list when
      there is no client or the query fails\<close>
  "table_list x =
     (case pgClient x of
        None \<Rightarrow> []
      | Some t \<Rightarrow> if pg_fault x (pg_calls x) then [] else all_tasks t)"

definition untimed :: "event \<Rightarrow> event" where
  \<comment> \<open>an event without its timestamp\<close>
  "untimed e =
     (case e of Tasks_update tasks n \<Rightarrow> Tasks_update tasks 0
              | Clawd_task tk msg n \<Rightarrow> Clawd_task tk msg 0)"

definition untimed_io :: "server option \<Rightarrow> (string list \<times> (string \<Rightarrow> event list)) option" where
  \<comment> \<open>the sessions and what each has been sent, timestamps apart\<close>
  "untimed_io i = map_option (\<lambda>s. (sockets s, \<lambda>c. map untimed (inbox s c))) i"

subsection \<open>Sample data\<close>

definition row1 :: row where
  "row1 = \<lparr>row_id = 1, title = ''Deploy'', description = Some ''ship it'',
            column_name = Some ''progress'', tag = Some ''purple'', assignee = Some ''Clawd'',
            priority = Some ''high'', emoji = Some [], due_date = Some ''2026-02-05'',
            created_at = Some 1600000000000, updated_at = Some 1600000000000\<rparr>"

definition row2 :: row where
  "row2 = \<lparr>row_id = 2, title = ''Mail'', description = Some [],
            column_name = Some ''done'', tag = Some ''green'', assignee = Some ''Ana'',
            priority = Some ''medium'', emoji = Some [], due_date = Some [],
            created_at = Some 1600000000001, updated_at = Some 1600000000002\<rparr>"

definition demo_table :: table where
  "demo_table = \<lparr>rows = [row1, row2], serial = 3\<rparr>"

definition demo_server :: server where
  "demo_server = \<lparr>sockets = [''s1'', ''s2''], inbox = (\<lambda>c. [])\<rparr>"

definition pg_world :: world where
  \<comment> \<open>PostgreSQL mode, two rows, two sessions, a clock that advances at every reading\<close>
  "pg_world =
     \<lparr>clock = (\<lambda>n. 1700000000000 + int n), ticks = 0, pgClient = Some demo_table,
      pg_fault = (\<lambda>n. False), pg_calls = 0, usePostgres = True, io = Some demo_server,
      tasks_file = Missing, fs_read_fault = False, fs_write_fault = False\<rparr>"

definition pg_down :: world where
  \<comment> \<open>the same with a database that refuses every query\<close>
  "pg_down = pg_world\<lparr>pg_fault := (\<lambda>n. True)\<rparr>"

definition task1 :: jsobj where
  "task1 = [''id'' \<mapsto> JNum 1, ''title'' \<mapsto> JStr ''Deploy'', ''column'' \<mapsto> JStr ''progress'',
            ''createdAt'' \<mapsto> JNum 1600000000000, ''updatedAt'' \<mapsto> JNum 1600000000000]"

definition task2 :: jsobj where
  "task2 = [''id'' \<mapsto> JNum 2, ''title'' \<mapsto> JStr ''Mail'', ''column'' \<mapsto> JStr ''archive'',
            ''createdAt'' \<mapsto> JNum 1600000000001, ''updatedAt'' \<mapsto> JNum 1600000000002]"

definition file_world :: world where
  \<comment> \<open>local mode, two tasks in the file, two sessions\<close>
  "file_world =
     \<lparr>clock = (\<lambda>n. 1700000000000 + int n), ticks = 0, pgClient = None,
      pg_fault = (\<lambda>n. False), pg_calls = 0, usePostgres = False, io = Some demo_server,
      tasks_file = Doc [task1, task2], fs_read_fault = False, fs_write_fault = False\<rparr>"

definition garbled :: world where
  \<comment> \<open>local mode with a file that is not JSON\<close>
  "garbled = file_world\<lparr>tasks_file := Garbage\<rparr>"

definition broken_disk :: world where
  \<comment> \<open>local mode with a file that cannot be written\<close>
  "broken_disk = file_world\<lparr>fs_write_fault := True\<rparr>"

definition delete_body :: "int \<Rightarrow> mutation" where
  \<comment> \<open>\<^verbatim>\<open>{action: 'delete', taskId: n}\<close>\<close>
  "delete_body n = \<lparr>action = Some (JStr ''delete''), task = None, taskId = Some (JNum n)\<rparr>"

definition update_body :: "jsobj \<Rightarrow> mutation" where
  \<comment> \<open>\<^verbatim>\<open>{action: 'update', task: p}\<close>\<close>
  "update_body p = \<lparr>action = Some (JStr ''update''), task = Some p, taskId = None\<rparr>"

definition add_body :: "jsobj \<Rightarrow> mutation" where
  \<comment> \<open>\<^verbatim>\<open>{action: 'add', task: p}\<close>\<close>
  "add_body p = \<lparr>action = Some (JStr ''add''), task = Some p, taskId = None\<rparr>"

definition recreate_payload :: jsobj where
  "recreate_payload = [''id'' \<mapsto> JNum 1, ''createdAt'' \<mapsto> JNum 5]"

definition retitle_payload :: jsobj where
  "retitle_payload = [''id'' \<mapsto> JNum 1, ''title'' \<mapsto> JStr ''Ship'']"

definition stray_payload :: jsobj where
  "stray_payload = [''id'' \<mapsto> JNum 99, ''title'' \<mapsto> JStr ''Ship'']"

definition far_payload :: jsobj where
  "far_payload = [''id'' \<mapsto> JNum 2147483648, ''title'' \<mapsto> JStr ''Ship'']"

definition clawd_payload :: jsobj where
  "clawd_payload = [''title'' \<mapsto> JStr ''X'', ''assignee'' \<mapsto> JStr ''Clawd'']"

definition plain_payload :: jsobj where
  "plain_payload = [''title'' \<mapsto> JStr ''Y'', ''assignee'' \<mapsto> JStr ''Ana'']"

section \<open>Properties\<close>

subsection \<open>Auxiliary facts\<close>

lemma getTasksPG_eq:
  "getTasksPG w =
     (case pgClient w of
        None \<Rightarrow> ([], w)
      | Some t \<Rightarrow> (if pg_fault w (pg_calls w) then [] else all_tasks t,
                   w\<lparr>pg_calls := Suc (pg_calls w)\<rparr>))"
  by (cases w) (simp add: getTasksPG_def getTasksPG_try_def pg_query_def exec_def all_tasks_def split: option.splits)

lemma deleteTaskPG_eq:
  "deleteTaskPG (Some (JNum n)) w =
     (case pgClient w of
        None \<Rightarrow> (False, w)
      | Some t \<Rightarrow>
          if pg_fault w (pg_calls w) \<or> \<not> in_int4 n
          then (False, w\<lparr>pg_calls := Suc (pg_calls w)\<rparr>)
          else (True, w\<lparr>pg_calls := Suc (pg_calls w),
                        pgClient := Some (t\<lparr>rows := filter (\<lambda>r. row_id r \<noteq> n) (rows t)\<rparr>)\<rparr>))"
  by (simp add: deleteTaskPG_def deleteTaskPG_try_def pg_query_def exec_def exec_delete_def
        param_int4_def split: option.splits)

lemma row_to_task_id: "row_to_task r ''id'' = Some (JNum (row_id r))"
  by (simp add: row_to_task_def)

lemma all_tasks_filter:
  "all_tasks (t\<lparr>rows := filter (\<lambda>r. row_id r \<noteq> n) (rows t)\<rparr>) =
   filter (\<lambda>x. x ''id'' \<noteq> Some (JNum n)) (all_tasks t)"
  by (simp add: all_tasks_def select_all_def filter_map comp_def row_to_task_id
        rev_filter [symmetric] filter_sort)

lemma filter_absent: "n \<notin> row_id ` set rs \<Longrightarrow> filter (\<lambda>r. row_id r \<noteq> n) rs = rs"
  by (induction rs) auto

lemma update_where_absent: "n \<notin> row_id ` set rs \<Longrightarrow> update_where n f rs = Inr rs"
  by (induction rs) auto

lemma zip_fst_snd: "zip (map fst xs) (map snd xs @ ys) = xs"
  by (induction xs) auto

lemma set_columns_append:
  "set_columns (xs @ ys) r = (case set_columns xs r of Inl e \<Rightarrow> Inl e | Inr r' \<Rightarrow> set_columns ys r')"
  by (induction xs arbitrary: r) (auto split: sum.splits)

lemma set_columns_clause:
  "set_columns (set_clause p @ [(''updated_at'', Some (JNum now))]) r = Inr r' \<Longrightarrow>
   r' = updated_row p now r"
  by (auto simp: set_clause_def updated_row_def assign_def set_columns_append
           split: if_splits sum.splits option.splits)

lemma filter_absent_gen: "y \<notin> f ` set xs \<Longrightarrow> filter (\<lambda>x. f x \<noteq> y) xs = xs"
  by (induction xs) auto

lemma delete_action_local:
  "\<not> usePostgres v \<Longrightarrow> \<not> fs_write_fault v \<Longrightarrow>
   delete_action tid v =
     (Inr (True, False), v\<lparr>tasks_file := Doc (filter (\<lambda>x. x ''id'' \<noteq> tid) (getTasksLocal v))\<rparr>)"
  by (simp add: delete_action_def saveTasksLocal_def)

subsection \<open>The status endpoint\<close>

lemma bucket_sum:
  "length (filter (in_column ''backlog'') ts) + length (filter (in_column ''progress'') ts)
   + length (filter (in_column ''done'') ts) + length (filter (in_column ''paused'') ts)
   = length (filter known_column ts)"
  by (induction ts) (auto simp: known_column_def in_column_def)

lemma bucket_unknown:
  "c \<in> {''backlog'', ''progress'', ''done'', ''paused''} \<Longrightarrow>
   filter (\<lambda>t. \<not> known_column t \<and> in_column c t) ts = []"
  by (auto simp: known_column_def filter_empty_conv)

text \<open>
  C8. The four counts of \<^verbatim>\<open>byColumn\<close> add up to the number of tasks whose column is one
  of backlog, progress, done and paused; the tasks with any other column add nothing to any
  of the four; \<^verbatim>\<open>total\<close> is the number of all tasks; and the endpoint answers with these
  numbers for the list of the active store.
\<close>

theorem status_buckets:
  "backlog (status_of ts now src) + progress (status_of ts now src)
     + done_count (status_of ts now src) + paused (status_of ts now src)
     = length (filter known_column ts)
  \<and> total (status_of ts now src) = length ts
  \<and> status_of (filter (\<lambda>t. \<not> known_column t) ts) now src =
     \<lparr>timestamp = now, source = src, total = length (filter (\<lambda>t. \<not> known_column t) ts),
      backlog = 0, progress = 0, done_count = 0, paused = 0\<rparr>
  \<and> fst (GET_status w) =
     status_of (listed w) (clock w (ticks w)) (if usePostgres w then ''postgresql'' else ''local'')"
proof -
  have "fst (GET_status w) =
     status_of (listed w) (clock w (ticks w)) (if usePostgres w then ''postgresql'' else ''local'')"
    by (simp add: GET_status_def listed_def Date_now_def split_def getTasksPG_eq split: option.splits)
  then show ?thesis
    by (simp add: status_of_def bucket_sum bucket_unknown)
qed

theorem status_buckets_witness:
  "backlog (status_of [task1, task2] 0 ''local'') + progress (status_of [task1, task2] 0 ''local'')
     + done_count (status_of [task1, task2] 0 ''local'') + paused (status_of [task1, task2] 0 ''local'')
     = 1
   \<and> total (status_of [task1, task2] 0 ''local'') = 2
   \<and> total (fst (GET_status file_world)) = 2"
proof -
  have k: "known_column task1" "\<not> known_column task2"
    by (simp_all add: known_column_def in_column_def task1_def task2_def)
  have l: "listed file_world = [task1, task2]"
    by (simp add: listed_def getTasksLocal_def file_world_def)
  from status_buckets [of "[task1, task2]" 0 "''local''" file_world] k l show ?thesis
    by (simp add: status_of_def)
qed

subsection \<open>Delete\<close>

text \<open>
  C6, as amended. Deleting by id. On the relational store, with the query executed: for an
  id in the range of the column (a four-byte integer) \<open>deleteTaskPG\<close> returns true and
  the list afterwards is the list before without the tasks of that id, unchanged when there
  was none; for an id outside that range the statement is rejected, the result is false and
  the table is as before. On the file store, with the file written, the handler's branch
  removes the tasks of that id and no other, for every id, leaves the list unchanged when
  there was none, and reports success. The HTTP handler deletes for a truthy
  \<^verbatim>\<open>taskId\<close> only: \<^verbatim>\<open>taskId: 0\<close> is answered \<^verbatim>\<open>success: false\<close> and nothing is done.
\<close>

theorem delete_removes_exactly:
  assumes "pgClient w = Some t" and "\<not> pg_fault w (pg_calls w)"
    and "\<not> usePostgres v" and "\<not> fs_write_fault v"
  shows "fst (deleteTaskPG (Some (JNum n)) w) = in_int4 n
       \<and> (\<exists>t'. pgClient (snd (deleteTaskPG (Some (JNum n)) w)) = Some t'
              \<and> all_tasks t' =
                  (if in_int4 n then filter (\<lambda>x. x ''id'' \<noteq> Some (JNum n)) (all_tasks t)
                   else all_tasks t)
              \<and> (in_int4 n \<longrightarrow> Some (JNum n) \<notin> (\<lambda>x. x ''id'') ` set (all_tasks t'))
              \<and> (n \<notin> row_id ` set (rows t) \<longrightarrow> t' = t)
              \<and> (\<not> in_int4 n \<longrightarrow> t' = t))
       \<and> fst (delete_action tid v) = Inr (True, False)
       \<and> getTasksLocal (snd (delete_action tid v)) = filter (\<lambda>x. x ''id'' \<noteq> tid) (getTasksLocal v)
       \<and> tid \<notin> (\<lambda>x. x ''id'') ` set (getTasksLocal (snd (delete_action tid v)))
       \<and> (tid \<notin> (\<lambda>x. x ''id'') ` set (getTasksLocal v) \<longrightarrow>
            getTasksLocal (snd (delete_action tid v)) = getTasksLocal v)
       \<and> (n \<noteq> 0 \<longrightarrow> fst (POST_tasks (Some (delete_body n)) v) = Success True (clock v (ticks v)))
       \<and> (n \<noteq> 0 \<and> usePostgres w \<longrightarrow>
            fst (POST_tasks (Some (delete_body n)) w) = Success (in_int4 n) (clock w (ticks w)))
       \<and> POST_tasks (Some (delete_body 0)) x =
            (Success False (clock x (ticks x)), x\<lparr>ticks := Suc (ticks x)\<rparr>)"
proof -
  let ?t' = "if in_int4 n then t\<lparr>rows := filter (\<lambda>r. row_id r \<noteq> n) (rows t)\<rparr> else t"
  have pg: "deleteTaskPG (Some (JNum n)) w =
        (in_int4 n, if in_int4 n
                    then w\<lparr>pg_calls := Suc (pg_calls w),
                           pgClient := Some (t\<lparr>rows := filter (\<lambda>r. row_id r \<noteq> n) (rows t)\<rparr>)\<rparr>
                    else w\<lparr>pg_calls := Suc (pg_calls w)\<rparr>)"
    using assms(1,2) by (simp add: deleteTaskPG_eq)
  have c1: "fst (deleteTaskPG (Some (JNum n)) w) = in_int4 n"
    by (simp add: pg)
  have c2: "\<exists>t'. pgClient (snd (deleteTaskPG (Some (JNum n)) w)) = Some t'
              \<and> all_tasks t' =
                  (if in_int4 n then filter (\<lambda>x. x ''id'' \<noteq> Some (JNum n)) (all_tasks t)
                   else all_tasks t)
              \<and> (in_int4 n \<longrightarrow> Some (JNum n) \<notin> (\<lambda>x. x ''id'') ` set (all_tasks t'))
              \<and> (n \<notin> row_id ` set (rows t) \<longrightarrow> t' = t)
              \<and> (\<not> in_int4 n \<longrightarrow> t' = t)"
  proof (intro exI conjI impI)
    show "pgClient (snd (deleteTaskPG (Some (JNum n)) w)) = Some ?t'"
      using assms(1) by (simp add: pg)
    show a: "all_tasks ?t' =
        (if in_int4 n then filter (\<lambda>x. x ''id'' \<noteq> Some (JNum n)) (all_tasks t) else all_tasks t)"
      by (simp add: all_tasks_filter)
    show "Some (JNum n) \<notin> (\<lambda>x. x ''id'') ` set (all_tasks ?t')" if "in_int4 n"
      using that by (auto simp: all_tasks_filter)
    show "?t' = t" if "n \<notin> row_id ` set (rows t)"
      using that by (simp add: filter_absent)
    show "?t' = t" if "\<not> in_int4 n"
      using that by simp
  qed
  note loc = delete_action_local [OF assms(3,4)]
  have c3: "fst (delete_action tid v) = Inr (True, False)"
    by (simp add: loc)
  have c4: "getTasksLocal (snd (delete_action tid v)) =
        filter (\<lambda>x. x ''id'' \<noteq> tid) (getTasksLocal v)"
    by (simp add: loc getTasksLocal_def split: tasks_json.splits)
  have c5: "tid \<notin> (\<lambda>x. x ''id'') ` set (getTasksLocal (snd (delete_action tid v)))"
    unfolding c4 by auto
  have c6: "tid \<notin> (\<lambda>x. x ''id'') ` set (getTasksLocal v) \<longrightarrow>
       getTasksLocal (snd (delete_action tid v)) = getTasksLocal v"
    unfolding c4 by (auto intro: filter_absent_gen)
  have c7: "n \<noteq> 0 \<longrightarrow>
      fst (POST_tasks (Some (delete_body n)) v) = Success True (clock v (ticks v))"
    by (simp add: POST_tasks_def POST_tasks_try_def delete_body_def loc Date_now_def)
  have c8: "n \<noteq> 0 \<and> usePostgres w \<longrightarrow>
      fst (POST_tasks (Some (delete_body n)) w) = Success (in_int4 n) (clock w (ticks w))"
    by (simp add: POST_tasks_def POST_tasks_try_def delete_body_def delete_action_def pg
          Date_now_def)
  have c9: "POST_tasks (Some (delete_body 0)) x =
      (Success False (clock x (ticks x)), x\<lparr>ticks := Suc (ticks x)\<rparr>)"
    by (simp add: POST_tasks_def POST_tasks_try_def delete_body_def Date_now_def)
  from c1 c2 c3 c4 c5 c6 c7 c8 c9 show ?thesis
    by (intro conjI)
qed

theorem delete_removes_exactly_witness:
  "pgClient pg_world = Some demo_table \<and> \<not> pg_fault pg_world (pg_calls pg_world)
   \<and> \<not> usePostgres file_world \<and> \<not> fs_write_fault file_world
   \<and> in_int4 1 \<and> fst (deleteTaskPG (Some (JNum 1)) pg_world) = True
   \<and> map row_id (rows (the (pgClient (snd (deleteTaskPG (Some (JNum 1)) pg_world))))) = [2]
   \<and> map (field ''id'') (getTasksLocal (snd (delete_action (Some (JNum 1)) file_world))) = [Some (JNum 2)]
   \<and> fst (POST_tasks (Some (delete_body 1)) file_world) = Success True 1700000000000
   \<and> fst (POST_tasks (Some (delete_body 1)) pg_world) = Success True 1700000000000
   \<and> fst (POST_tasks (Some (delete_body 0)) file_world) = Success False 1700000000000"
proof -
  have h: "pgClient pg_world = Some demo_table" "\<not> pg_fault pg_world (pg_calls pg_world)"
    "\<not> usePostgres file_world" "\<not> fs_write_fault file_world"
    by (simp_all add: pg_world_def file_world_def)
  have r: "map row_id (rows (the (pgClient (snd (deleteTaskPG (Some (JNum 1)) pg_world))))) = [2]"
    by (simp add: deleteTaskPG_eq pg_world_def demo_table_def row1_def row2_def in_int4_def)
  have l: "getTasksLocal file_world = [task1, task2]"
    by (simp add: getTasksLocal_def file_world_def)
  have i: "task1 ''id'' = Some (JNum 1)" "task2 ''id'' = Some (JNum 2)"
    by (simp_all add: task1_def task2_def)
  have c: "clock file_world (ticks file_world) = 1700000000000"
    "clock pg_world (ticks pg_world) = 1700000000000" "usePostgres pg_world" "in_int4 1"
    by (simp_all add: file_world_def pg_world_def in_int4_def)
  from delete_removes_exactly [OF h, of 1 "Some (JNum 1)" file_world] h r l i c show ?thesis
    by (simp add: field_def)
qed

text \<open>
  The claim as stated fails at two ids. In PostgreSQL mode a delete of the absent id
  1700000000002, an id of the kind the file store assigns, is outside the four-byte column:
  the query is rejected and the result is false. And the handler answers the delete of id 0
  with \<^verbatim>\<open>success: false\<close>.
\<close>

theorem delete_counterexample:
  "pgClient pg_world = Some demo_table \<and> \<not> pg_fault pg_world (pg_calls pg_world)
   \<and> map row_id (rows demo_table) = [1, 2]
   \<and> fst (deleteTaskPG (Some (JNum 1700000000002)) pg_world) = False
   \<and> fst (POST_tasks (Some (delete_body 1700000000002)) pg_world) = Success False 1700000000000
   \<and> map (field ''id'') (getTasksLocal file_world) = [Some (JNum 1), Some (JNum 2)]
   \<and> fst (POST_tasks (Some (delete_body 0)) file_world) = Success False 1700000000000"
proof -
  have l: "getTasksLocal file_world = [task1, task2]"
    by (simp add: getTasksLocal_def file_world_def)
  have i: "task1 ''id'' = Some (JNum 1)" "task2 ''id'' = Some (JNum 2)"
    by (simp_all add: task1_def task2_def)
  have a: "fst (deleteTaskPG (Some (JNum 1700000000002)) pg_world) = False"
    by (simp add: deleteTaskPG_eq pg_world_def in_int4_def)
  have b: "fst (POST_tasks (Some (delete_body 1700000000002)) pg_world) =
      Success False 1700000000000"
    by (simp add: POST_tasks_def POST_tasks_try_def delete_body_def delete_action_def
          deleteTaskPG_eq pg_world_def in_int4_def Date_now_def)
  have c: "fst (POST_tasks (Some (delete_body 0)) file_world) = Success False 1700000000000"
    by (simp add: POST_tasks_def POST_tasks_try_def delete_body_def Date_now_def file_world_def)
  from a b c l i show ?thesis
    by (simp add: pg_world_def demo_table_def row1_def row2_def field_def)
qed

subsection \<open>Update\<close>

lemma distinct_set_clause:
  "distinct (map fst (set_clause p @ [(''updated_at'', v)])) \<longleftrightarrow> p ''updatedAt'' = None"
  by (simp add: set_clause_def)

lemma saveTaskPG_update_branch:
  assumes "pgClient w = Some t" and "p ''id'' = Some (JNum n)" and "0 < n"
  shows "saveTaskPG p w =
     (if pg_fault w (pg_calls w) \<or> p ''updatedAt'' \<noteq> None \<or> \<not> in_int4 n
      then (False, w\<lparr>ticks := Suc (ticks w), pg_calls := Suc (pg_calls w)\<rparr>)
      else case update_where n
                  (set_columns (set_clause p @ [(''updated_at'', Some (JNum (clock w (ticks w))))]))
                  (rows t) of
             Inl e \<Rightarrow> (False, w\<lparr>ticks := Suc (ticks w), pg_calls := Suc (pg_calls w)\<rparr>)
           | Inr rs \<Rightarrow> (True, w\<lparr>ticks := Suc (ticks w), pg_calls := Suc (pg_calls w),
                                 pgClient := Some (t\<lparr>rows := rs\<rparr>)\<rparr>))"
  using assms
  by (simp add: saveTaskPG_def saveTaskPG_try_def saveTaskPG_update_def Date_now_def
        pg_query_def exec_def exec_update_def param_int4_def Let_def distinct_set_clause
        zip_fst_snd
        del: map_append distinct_append
        split: sum.splits)

lemma update_where_map:
  "update_where n f rs = Inr rs' \<Longrightarrow> (\<And>r r'. f r = Inr r' \<Longrightarrow> r' = g r) \<Longrightarrow>
   rs' = map (\<lambda>r. if row_id r = n then g r else r) rs"
proof (induction rs arbitrary: rs')
  case Nil
  then show ?case by simp
next
  case (Cons r rs)
  then show ?case
    by (auto split: sum.splits if_splits)
qed

lemma findIndex_None: "findIndex P xs = None \<longleftrightarrow> (\<forall>x \<in> set xs. \<not> P x)"
  by (induction xs) auto

lemma findIndex_Some: "findIndex P xs = Some i \<Longrightarrow> i < length xs \<and> P (xs ! i)"
  by (induction xs arbitrary: i) (auto split: if_splits)

lemma getTasksLocal_written:
  "getTasksLocal v \<noteq> [] \<Longrightarrow> getTasksLocal (v\<lparr>ticks := k, tasks_file := Doc ts\<rparr>) = ts"
  by (auto simp: getTasksLocal_def split: tasks_json.splits if_splits)

lemma getTasksLocal_ticks [simp]: "getTasksLocal (v\<lparr>ticks := k\<rparr>) = getTasksLocal v"
  by (simp add: getTasksLocal_def split: tasks_json.splits)

lemma getTasksLocal_Doc:
  "getTasksLocal (v\<lparr>tasks_file := Doc ts\<rparr>) = (if fs_read_fault v then [] else ts)"
  by (simp add: getTasksLocal_def)

lemma update_action_local:
  assumes "\<not> usePostgres v" and "\<not> fs_write_fault v"
    and "findIndex (\<lambda>x. x ''id'' = p ''id'') (getTasksLocal v) = Some idx"
  shows "update_action p v =
     (Inr (True, False),
      v\<lparr>ticks := Suc (ticks v),
        tasks_file := Doc ((getTasksLocal v)
           [idx := (getTasksLocal v ! idx ++ p)(''updatedAt'' \<mapsto> JNum (clock v (ticks v)))])\<rparr>)"
  using assms by (simp add: update_action_def saveTasksLocal_def Date_now_def Let_def)

lemma update_action_missing:
  assumes "\<not> usePostgres v" and "p ''id'' \<notin> (\<lambda>x. x ''id'') ` set (getTasksLocal v)"
  shows "update_action p v = (Inr (False, False), v)"
proof -
  have "findIndex (\<lambda>x. x ''id'' = p ''id'') (getTasksLocal v) = None"
    using assms(2) by (force simp: findIndex_None image_def)
  with assms(1) show ?thesis
    by (simp add: update_action_def)
qed

lemma POST_update: "POST_tasks_try (update_body p) w = update_action p w"
  by (simp add: POST_tasks_try_def update_body_def)

text \<open>
  C5, as amended. An upsert carrying a positive id that matches no record. On the
  relational store, when the payload has no \<^verbatim>\<open>updatedAt\<close> of its own, its title and
  column fit their columns and the query is executed, \<open>saveTaskPG\<close> leaves the table as it
  was; it returns true when the id is in the range of the column \<^verbatim>\<open>id\<close>, a four-byte
  integer, and false when it is not. On the file store the handler finds no index, writes
  nothing, and answers \<^verbatim>\<open>success: false\<close>.
\<close>

theorem update_missing_id:
  assumes "pgClient w = Some t" and "q ''id'' = Some (JNum n)" and "0 < n"
    and "n \<notin> row_id ` set (rows t)"
    and "\<not> pg_fault w (pg_calls w)" and "q ''updatedAt'' = None"
    and "fits 500 (q ''title'')" and "fits 50 (q ''column'')"
    and "\<not> usePostgres v" and "p ''id'' \<notin> (\<lambda>x. x ''id'') ` set (getTasksLocal v)"
  shows "fst (saveTaskPG q w) = in_int4 n
       \<and> fst (saveTaskPG q w) = (n \<le> 2147483647)
       \<and> pgClient (snd (saveTaskPG q w)) = Some t
       \<and> update_action p v = (Inr (False, False), v)
       \<and> POST_tasks (Some (update_body p)) v =
           (Success False (clock v (ticks v)), v\<lparr>ticks := Suc (ticks v)\<rparr>)"
proof -
  have u: "update_where n f (rows t) = Inr (rows t)" for f
    using assms(4) by (rule update_where_absent)
  have pg: "saveTaskPG q w =
      (in_int4 n,
       if in_int4 n
       then w\<lparr>ticks := Suc (ticks w), pg_calls := Suc (pg_calls w), pgClient := Some t\<rparr>
       else w\<lparr>ticks := Suc (ticks w), pg_calls := Suc (pg_calls w)\<rparr>)"
    using assms(1-3,5,6) by (simp add: saveTaskPG_update_branch [of w t q n] u)
  have r: "in_int4 n = (n \<le> 2147483647)"
    using assms(3) by (auto simp: in_int4_def)
  have a: "fst (saveTaskPG q w) = in_int4 n"
    by (simp add: pg)
  have b: "pgClient (snd (saveTaskPG q w)) = Some t"
    using assms(1) by (simp add: pg)
  have loc: "update_action p v = (Inr (False, False), v)"
    using assms(9,10) by (rule update_action_missing)
  have post: "POST_tasks (Some (update_body p)) v =
           (Success False (clock v (ticks v)), v\<lparr>ticks := Suc (ticks v)\<rparr>)"
    by (simp add: POST_tasks_def POST_update loc Date_now_def)
  from a b loc post r show ?thesis
    by simp
qed

theorem update_missing_id_witness:
  "pgClient pg_world = Some demo_table \<and> stray_payload ''id'' = Some (JNum 99) \<and> (0::int) < 99
   \<and> (99::int) \<notin> row_id ` set (rows demo_table)
   \<and> \<not> pg_fault pg_world (pg_calls pg_world) \<and> stray_payload ''updatedAt'' = None
   \<and> fits 500 (stray_payload ''title'') \<and> fits 50 (stray_payload ''column'')
   \<and> \<not> usePostgres file_world
   \<and> stray_payload ''id'' \<notin> (\<lambda>x. x ''id'') ` set (getTasksLocal file_world)
   \<and> fst (saveTaskPG stray_payload pg_world) = True
   \<and> pgClient (snd (saveTaskPG stray_payload pg_world)) = Some demo_table
   \<and> fst (POST_tasks (Some (update_body stray_payload)) file_world) = Success False 1700000000000
   \<and> far_payload ''id'' = Some (JNum 2147483648)
   \<and> (2147483648::int) \<notin> row_id ` set (rows demo_table)
   \<and> fst (saveTaskPG far_payload pg_world) = False
   \<and> pgClient (snd (saveTaskPG far_payload pg_world)) = Some demo_table"
proof -
  have h: "pgClient pg_world = Some demo_table" "stray_payload ''id'' = Some (JNum 99)"
    "(0::int) < 99" "(99::int) \<notin> row_id ` set (rows demo_table)"
    "\<not> pg_fault pg_world (pg_calls pg_world)" "stray_payload ''updatedAt'' = None"
    "fits 500 (stray_payload ''title'')" "fits 50 (stray_payload ''column'')"
    "\<not> usePostgres file_world"
    "stray_payload ''id'' \<notin> (\<lambda>x. x ''id'') ` set (getTasksLocal file_world)"
    by (simp_all add: pg_world_def file_world_def stray_payload_def demo_table_def row1_def
          row2_def getTasksLocal_def task1_def task2_def fits_def)
  have g: "far_payload ''id'' = Some (JNum 2147483648)"
    "(0::int) < 2147483648" "(2147483648::int) \<notin> row_id ` set (rows demo_table)"
    "far_payload ''updatedAt'' = None"
    "fits 500 (far_payload ''title'')" "fits 50 (far_payload ''column'')"
    by (simp_all add: far_payload_def demo_table_def row1_def row2_def fits_def)
  have c: "clock file_world (ticks file_world) = 1700000000000"
    by (simp add: file_world_def)
  have i: "in_int4 99" "\<not> in_int4 2147483648"
    by (simp_all add: in_int4_def)
  note a = update_missing_id [of pg_world demo_table stray_payload 99 file_world stray_payload]
  note b = update_missing_id [of pg_world demo_table far_payload 2147483648 file_world
      stray_payload]
  from a b h g c i show ?thesis
    by simp
qed

text \<open>
  The claim as stated fails on the file store: no task has id 99, and the update is
  answered with \<^verbatim>\<open>success: false\<close>.
\<close>

theorem update_missing_id_file_counterexample:
  "stray_payload ''id'' = Some (JNum 99)
   \<and> map (field ''id'') (getTasksLocal file_world) = [Some (JNum 1), Some (JNum 2)]
   \<and> fst (POST_tasks (Some (update_body stray_payload)) file_world) = Success False 1700000000000"
proof -
  have l: "getTasksLocal file_world = [task1, task2]"
    by (simp add: getTasksLocal_def file_world_def)
  have i: "task1 ''id'' = Some (JNum 1)" "task2 ''id'' = Some (JNum 2)"
    "stray_payload ''id'' = Some (JNum 99)"
    by (simp_all add: task1_def task2_def stray_payload_def)
  have "update_action stray_payload file_world = (Inr (False, False), file_world)"
    by (rule update_action_missing) (simp_all add: l i, simp add: file_world_def)
  then show ?thesis
    by (simp add: POST_tasks_def POST_update Date_now_def l i field_def, simp add: file_world_def)
qed

lemma saveTaskPG_update_rows:
  assumes "pgClient w = Some t" and "q ''id'' = Some (JNum n)" and "0 < n"
    and "saveTaskPG q w = (True, w')"
  shows "pgClient w' =
     Some (t\<lparr>rows := map (\<lambda>r. if row_id r = n then updated_row q (clock w (ticks w)) r else r)
                         (rows t)\<rparr>)"
proof -
  let ?f = "set_columns (set_clause q @ [(''updated_at'', Some (JNum (clock w (ticks w))))])"
  note eq = saveTaskPG_update_branch [of w t q n]
  obtain rs where rs: "update_where n ?f (rows t) = Inr rs"
    and w': "w' = w\<lparr>ticks := Suc (ticks w), pg_calls := Suc (pg_calls w),
                      pgClient := Some (t\<lparr>rows := rs\<rparr>)\<rparr>"
    using assms by (auto simp: eq split: if_splits sum.splits)
  have "rs = map (\<lambda>r. if row_id r = n then updated_row q (clock w (ticks w)) r else r) (rows t)"
    using rs by (rule update_where_map) (rule set_columns_clause)
  with w' show ?thesis
    by simp
qed

text \<open>
  C1, as amended. An update of an existing task. On the file store the stored object keeps
  every field the payload does not have, takes every field the payload has (a
  \<^verbatim>\<open>createdAt\<close> in the payload included), and gets the current time as
  \<^verbatim>\<open>updatedAt\<close>; the other tasks stay as they were. On the relational store, when
  \<open>saveTaskPG\<close> returns true, the rows of that id become \<open>updated_row\<close> of
  themselves and the others are untouched: id, creation time, tag, assignee, priority, emoji
  and due date are kept, column, title and description are kept unless the payload has them,
  and the update time is the current time.
\<close>

theorem update_frame:
  assumes "\<not> usePostgres v" and "\<not> fs_write_fault v"
    and "findIndex (\<lambda>x. x ''id'' = p ''id'') (getTasksLocal v) = Some idx"
    and "pgClient w = Some t" and "q ''id'' = Some (JNum n)" and "0 < n"
    and "saveTaskPG q w = (True, w')"
  shows "fst (update_action p v) = Inr (True, False)
       \<and> length (getTasksLocal (snd (update_action p v))) = length (getTasksLocal v)
       \<and> (\<forall>j. j \<noteq> idx \<longrightarrow>
            getTasksLocal (snd (update_action p v)) ! j = getTasksLocal v ! j)
       \<and> (getTasksLocal (snd (update_action p v)) ! idx) ''updatedAt'' =
            Some (JNum (clock v (ticks v)))
       \<and> (\<forall>k. k \<noteq> ''updatedAt'' \<longrightarrow>
            (getTasksLocal (snd (update_action p v)) ! idx) k =
              (case p k of None \<Rightarrow> (getTasksLocal v ! idx) k | Some x \<Rightarrow> Some x))
       \<and> pgClient w' =
            Some (t\<lparr>rows := map (\<lambda>r. if row_id r = n
                                       then updated_row q (clock w (ticks w)) r else r) (rows t)\<rparr>)
       \<and> (\<forall>r. row_id (updated_row q (clock w (ticks w)) r) = row_id r
              \<and> created_at (updated_row q (clock w (ticks w)) r) = created_at r
              \<and> tag (updated_row q (clock w (ticks w)) r) = tag r
              \<and> assignee (updated_row q (clock w (ticks w)) r) = assignee r
              \<and> priority (updated_row q (clock w (ticks w)) r) = priority r
              \<and> emoji (updated_row q (clock w (ticks w)) r) = emoji r
              \<and> due_date (updated_row q (clock w (ticks w)) r) = due_date r
              \<and> updated_at (updated_row q (clock w (ticks w)) r) = Some (clock w (ticks w))
              \<and> (q ''column'' = None \<longrightarrow>
                   column_name (updated_row q (clock w (ticks w)) r) = column_name r)
              \<and> (q ''title'' = None \<longrightarrow>
                   title (updated_row q (clock w (ticks w)) r) = title r)
              \<and> (q ''description'' = None \<longrightarrow>
                   description (updated_row q (clock w (ticks w)) r) = description r))"
proof -
  let ?ts = "getTasksLocal v"
  let ?new = "(?ts ! idx ++ p)(''updatedAt'' \<mapsto> JNum (clock v (ticks v)))"
  have idx: "idx < length ?ts"
    using assms(3) by (auto dest: findIndex_Some)
  then have ne: "?ts \<noteq> []"
    by auto
  have act: "update_action p v =
      (Inr (True, False), v\<lparr>ticks := Suc (ticks v), tasks_file := Doc (?ts[idx := ?new])\<rparr>)"
    using assms(1-3) by (rule update_action_local)
  have ts': "getTasksLocal (snd (update_action p v)) = ?ts[idx := ?new]"
    by (simp add: act getTasksLocal_written [OF ne])
  have c1: "fst (update_action p v) = Inr (True, False)"
    by (simp add: act)
  have c2: "length (getTasksLocal (snd (update_action p v))) = length ?ts"
    by (simp add: ts')
  have c3: "\<forall>j. j \<noteq> idx \<longrightarrow> getTasksLocal (snd (update_action p v)) ! j = ?ts ! j"
    by (simp add: ts')
  have c4: "(getTasksLocal (snd (update_action p v)) ! idx) ''updatedAt'' =
      Some (JNum (clock v (ticks v)))"
    using idx by (simp add: ts')
  have c5: "\<forall>k. k \<noteq> ''updatedAt'' \<longrightarrow>
      (getTasksLocal (snd (update_action p v)) ! idx) k =
        (case p k of None \<Rightarrow> (?ts ! idx) k | Some x \<Rightarrow> Some x)"
    using idx by (simp add: ts' map_add_def)
  have c6: "pgClient w' =
      Some (t\<lparr>rows := map (\<lambda>r. if row_id r = n
                                 then updated_row q (clock w (ticks w)) r else r) (rows t)\<rparr>)"
    using assms(4-7) by (rule saveTaskPG_update_rows)
  from c1 c2 c3 c4 c5 c6 show ?thesis
    by (intro conjI allI) (simp_all add: updated_row_def)
qed

lemma file_world_tasks: "getTasksLocal file_world = [task1, task2]"
  by (simp add: getTasksLocal_def file_world_def)

lemma file_world_flags:
  "\<not> usePostgres file_world" "\<not> fs_write_fault file_world"
  "ticks file_world = 0" "clock file_world k = 1700000000000 + int k"
  "fs_read_fault file_world = False" "tasks_file file_world = Doc [task1, task2]"
  by (simp_all add: file_world_def)

lemma pg_world_flags:
  "usePostgres pg_world" "pgClient pg_world = Some demo_table" "pg_fault pg_world k = False"
  "ticks pg_world = 0" "clock pg_world k = 1700000000000 + int k" "pg_calls pg_world = 0"
  "io pg_world = Some demo_server"
  by (simp_all add: pg_world_def)

theorem update_frame_witness:
  "\<not> usePostgres file_world \<and> \<not> fs_write_fault file_world
   \<and> findIndex (\<lambda>x. x ''id'' = retitle_payload ''id'') (getTasksLocal file_world) = Some 0
   \<and> pgClient pg_world = Some demo_table \<and> retitle_payload ''id'' = Some (JNum 1) \<and> (0::int) < 1
   \<and> fst (saveTaskPG retitle_payload pg_world) = True
   \<and> map title (rows (the (pgClient (snd (saveTaskPG retitle_payload pg_world))))) = [''Ship'', ''Mail'']
   \<and> map updated_at (rows (the (pgClient (snd (saveTaskPG retitle_payload pg_world)))))
        = [Some 1700000000000, Some 1600000000002]
   \<and> map created_at (rows (the (pgClient (snd (saveTaskPG retitle_payload pg_world)))))
        = [Some 1600000000000, Some 1600000000001]
   \<and> field ''title'' (getTasksLocal (snd (update_action retitle_payload file_world)) ! 0)
        = Some (JStr ''Ship'')
   \<and> field ''column'' (getTasksLocal (snd (update_action retitle_payload file_world)) ! 0)
        = Some (JStr ''progress'')
   \<and> field ''createdAt'' (getTasksLocal (snd (update_action retitle_payload file_world)) ! 0)
        = Some (JNum 1600000000000)
   \<and> field ''updatedAt'' (getTasksLocal (snd (update_action retitle_payload file_world)) ! 0)
        = Some (JNum 1700000000000)"
proof -
  have p: "retitle_payload ''id'' = Some (JNum 1)" "retitle_payload ''updatedAt'' = None"
    "retitle_payload ''title'' = Some (JStr ''Ship'')" "retitle_payload ''column'' = None"
    "retitle_payload ''createdAt'' = None" "retitle_payload ''description'' = None"
    by (simp_all add: retitle_payload_def)
  have f: "findIndex (\<lambda>x. x ''id'' = retitle_payload ''id'') (getTasksLocal file_world) = Some 0"
    by (simp add: file_world_tasks p task1_def)
  have s: "saveTaskPG retitle_payload pg_world =
      (True, snd (saveTaskPG retitle_payload pg_world))"
    by (simp add: saveTaskPG_update_branch [of pg_world demo_table retitle_payload 1]
          pg_world_flags p demo_table_def row1_def row2_def set_clause_def assign_def in_int4_def)
  have s': "fst (saveTaskPG retitle_payload pg_world) = True"
    by (subst s) simp
  have t: "task1 ''title'' = Some (JStr ''Deploy'')" "task1 ''column'' = Some (JStr ''progress'')"
    "task1 ''createdAt'' = Some (JNum 1600000000000)" "task1 ''id'' = Some (JNum 1)"
    by (simp_all add: task1_def)
  note r = update_frame [of file_world retitle_payload 0 pg_world demo_table retitle_payload 1
      "snd (saveTaskPG retitle_payload pg_world)"]
  have z: "(0::int) < 1"
    by simp
  have k: "\<forall>k. k \<noteq> ''updatedAt'' \<longrightarrow>
      (getTasksLocal (snd (update_action retitle_payload file_world)) ! 0) k =
        (case retitle_payload k of None \<Rightarrow> (getTasksLocal file_world ! 0) k | Some x \<Rightarrow> Some x)"
    using r f s p(1) z file_world_flags(1,2) pg_world_flags(2) by blast
  have u: "(getTasksLocal (snd (update_action retitle_payload file_world)) ! 0) ''updatedAt'' =
      Some (JNum (clock file_world (ticks file_world)))"
    using r f s p(1) z file_world_flags(1,2) pg_world_flags(2) by blast
  have g: "pgClient (snd (saveTaskPG retitle_payload pg_world)) =
      Some (demo_table\<lparr>rows := map (\<lambda>r. if row_id r = 1
               then updated_row retitle_payload (clock pg_world (ticks pg_world)) r else r)
             (rows demo_table)\<rparr>)"
    using r f s p(1) z file_world_flags(1,2) pg_world_flags(2) by blast
  from k [rule_format, of "''title''"] k [rule_format, of "''column''"]
    k [rule_format, of "''createdAt''"] u g f s' p t
  show ?thesis
    by (simp add: file_world_flags pg_world_flags file_world_tasks field_def demo_table_def
          row1_def row2_def updated_row_def)
qed

text \<open>
  The claim as stated fails on the file store: a payload that carries \<^verbatim>\<open>createdAt\<close>
  overwrites the creation time of the stored task.
\<close>

theorem update_createdAt_counterexample:
  "recreate_payload ''id'' = Some (JNum 1)
   \<and> field ''id'' (getTasksLocal file_world ! 0) = Some (JNum 1)
   \<and> field ''createdAt'' (getTasksLocal file_world ! 0) = Some (JNum 1600000000000)
   \<and> fst (POST_tasks (Some (update_body recreate_payload)) file_world) = Success True 1700000000001
   \<and> field ''createdAt''
        (getTasksLocal (snd (POST_tasks (Some (update_body recreate_payload)) file_world)) ! 0)
      = Some (JNum 5)"
proof -
  have p: "recreate_payload ''id'' = Some (JNum 1)" "recreate_payload ''createdAt'' = Some (JNum 5)"
    by (simp_all add: recreate_payload_def)
  have t: "task1 ''id'' = Some (JNum 1)" "task1 ''createdAt'' = Some (JNum 1600000000000)"
    by (simp_all add: task1_def)
  have f: "findIndex (\<lambda>x. x ''id'' = recreate_payload ''id'') (getTasksLocal file_world) = Some 0"
    by (simp add: file_world_tasks p t)
  have a: "update_action recreate_payload file_world =
     (Inr (True, False),
      file_world\<lparr>ticks := Suc (ticks file_world),
        tasks_file := Doc ((getTasksLocal file_world)
           [0 := (getTasksLocal file_world ! 0 ++ recreate_payload)
                   (''updatedAt'' \<mapsto> JNum (clock file_world (ticks file_world)))])\<rparr>)"
    using file_world_flags(1,2) f by (rule update_action_local)
  show ?thesis
    by (simp add: POST_tasks_def POST_update a Date_now_def file_world_tasks field_def p t
          getTasksLocal_Doc file_world_flags)
qed

text \<open>
  When the payload itself has an \<^verbatim>\<open>updatedAt\<close>, \<open>saveTaskPG\<close> names the column
  \<^verbatim>\<open>updated_at\<close> twice in the SET list; the statement is rejected, nothing is written and
  the result is false. Both callers add \<^verbatim>\<open>updatedAt: Date.now()\<close> to the payload, so an
  update through \<^verbatim>\<open>POST /api/tasks\<close> in PostgreSQL mode never succeeds.
\<close>

lemma saveTaskPG_updatedAt_twice:
  assumes "pgClient w = Some t" and "p ''id'' = Some (JNum n)" and "0 < n"
    and "p ''updatedAt'' \<noteq> None"
  shows "fst (saveTaskPG p w) = False \<and> pgClient (snd (saveTaskPG p w)) = Some t"
  using assms by (simp add: saveTaskPG_update_branch [of w t p n])

lemma POST_update_postgres_fails:
  assumes "usePostgres w" and "pgClient w = Some t" and "p ''id'' = Some (JNum n)" and "0 < n"
  shows "fst (POST_tasks (Some (update_body p)) w) = Success False (clock w (Suc (Suc (ticks w))))
       \<and> pgClient (snd (POST_tasks (Some (update_body p)) w)) = Some t
       \<and> io (snd (POST_tasks (Some (update_body p)) w)) = io w"
proof -
  let ?w1 = "w\<lparr>ticks := Suc (ticks w)\<rparr>"
  let ?p = "p(''updatedAt'' \<mapsto> JNum (clock w (ticks w)))"
  have "saveTaskPG ?p ?w1 =
      (False, ?w1\<lparr>ticks := Suc (ticks ?w1), pg_calls := Suc (pg_calls ?w1)\<rparr>)"
    using assms by (simp add: saveTaskPG_update_branch [of ?w1 t ?p n])
  with assms(1,2) show ?thesis
    by (simp add: POST_tasks_def POST_update update_action_def Date_now_def)
qed

subsection \<open>Insert and the assignment notification\<close>

lemma param_text_or: "param_text (js_or v (Some (JStr d))) = Some (defaulted d v)"
  by (cases v rule: truthy.cases) (simp_all add: js_or_def defaulted_def)

lemma exec_insert_params:
  "exec_insert [js_or (p ''title'') (Some (JStr [])),
                js_or (p ''description'') (Some (JStr [])),
                js_or (p ''column'') (Some (JStr ''backlog'')),
                js_or (p ''tag'') (Some (JStr [])),
                js_or (p ''assignee'') (Some (JStr [])),
                js_or (p ''priority'') (Some (JStr ''medium'')),
                js_or (p ''emoji'') (Some (JStr [])),
                js_or (p ''dueDate'') (Some (JStr [])),
                Some (JNum c), Some (JNum u)] t =
   (if 2147483647 < serial t then Inl QueryError
    else Inr (t\<lparr>rows := rows t @ [inserted_row p (serial t) c u], serial := serial t + 1\<rparr>))"
  by (simp add: exec_insert_def param_text_or inserted_row_def)

lemma toLowerCase_assignee:
  "toLowerCase (js_or (p ''assignee'') (Some (JStr []))) =
     (if text_assignee p
      then Inr (case p ''assignee'' of Some (JStr a) \<Rightarrow> map toLowerChar a | _ \<Rightarrow> [])
      else Inl TypeError)"
  by (cases "p ''assignee''" rule: truthy.cases)
     (simp_all add: toLowerCase_def js_or_def text_assignee_def)

lemma notifies_eq:
  "text_assignee p \<Longrightarrow>
   (includes_str (case p ''assignee'' of Some (JStr a) \<Rightarrow> map toLowerChar a | _ \<Rightarrow> []) ''clawd'' \<or>
    includes_str (case p ''assignee'' of Some (JStr a) \<Rightarrow> map toLowerChar a | _ \<Rightarrow> []) ''jarvis'')
   = notifies p"
  by (cases "p ''assignee''" rule: truthy.cases) (simp_all add: notifies_def text_assignee_def)

lemma no_positive_id_branch: "no_positive_id p \<Longrightarrow> \<not> (truthy (p ''id'') \<and> js_gt0 (p ''id''))"
  by (cases "p ''id''" rule: truthy.cases) (simp_all add: no_positive_id_def)

lemma broadcastClawdNotification_new:
  assumes "text_assignee p" and "notifies p"
  shows "broadcastClawdNotification (p(''id'' \<mapsto> x)) w =
     (Inr (), case io w of
                None \<Rightarrow> w
              | Some s \<Rightarrow>
                  if usePostgres w
                  then w\<lparr>ticks := Suc (ticks w),
                         io := Some (emit (Clawd_task (p(''id'' \<mapsto> x)) (clawd_message p)
                                       (clock w (ticks w))) s)\<rparr>
                  else w)"
  using assms
  by (simp add: broadcastClawdNotification_def toLowerCase_assignee notifies_eq Date_now_def
        clawd_message_def text_assignee_def split: option.splits)

lemma saveTaskPG_insert_branch:
  assumes "pgClient w = Some t" and "no_positive_id p"
  shows "saveTaskPG p w =
     (if pg_fault w (pg_calls w) \<or> 2147483647 < serial t
      then (False, w\<lparr>ticks := Suc (Suc (ticks w)), pg_calls := Suc (pg_calls w)\<rparr>)
      else if \<not> text_assignee p then (False, after_insert p t w)
      else if notifies p then
        (True, case io w of
                 None \<Rightarrow> (after_insert p t w)\<lparr>ticks := Suc (Suc (Suc (ticks w)))\<rparr>
               | Some s \<Rightarrow>
                   if usePostgres w
                   then (after_insert p t w)
                          \<lparr>ticks := Suc (Suc (Suc (Suc (ticks w)))),
                           io := Some (emit (clawd_event p w) s)\<rparr>
                   else (after_insert p t w)\<lparr>ticks := Suc (Suc (Suc (ticks w)))\<rparr>)
      else (True, after_insert p t w))"
proof -
  have br: "(truthy (p ''id'') \<and> js_gt0 (p ''id'')) = False"
    using no_positive_id_branch [OF assms(2)] by simp
  show ?thesis
  proof (cases "pg_fault w (pg_calls w) \<or> 2147483647 < serial t")
    case True
    with assms(1) show ?thesis
      by (auto simp: saveTaskPG_def saveTaskPG_try_def saveTaskPG_insert_def Date_now_def
            pg_query_def exec_def exec_insert_params br)
  next
    case False
    with assms(1) have q: "saveTaskPG_try p w =
      (case toLowerCase (js_or (p ''assignee'') (Some (JStr []))) of
         Inl e \<Rightarrow> (Inl e, after_insert p t w)
       | Inr a \<Rightarrow>
           if includes_str a ''clawd'' \<or> includes_str a ''jarvis'' then
             (case broadcastClawdNotification
                     (p(''id'' \<mapsto> JNum (clock w (Suc (Suc (ticks w))))))
                     ((after_insert p t w)\<lparr>ticks := Suc (Suc (Suc (ticks w)))\<rparr>) of
                (Inl e, w5) \<Rightarrow> (Inl e, w5)
              | (Inr u, w5) \<Rightarrow> (Inr True, w5))
           else (Inr True, after_insert p t w))"
      by (simp add: saveTaskPG_try_def saveTaskPG_insert_def Date_now_def pg_query_def exec_def
            exec_insert_params after_insert_def br
          cong: sum.case_cong if_cong)
    show ?thesis
    proof (cases "text_assignee p")
      case no: False
      with False show ?thesis
        by (simp add: saveTaskPG_def q toLowerCase_assignee)
    next
      case yes: True
      show ?thesis
      proof (cases "notifies p")
        case True
        with False yes show ?thesis
          by (simp add: saveTaskPG_def q toLowerCase_assignee notifies_eq
                broadcastClawdNotification_new clawd_event_def after_insert_def
              split: option.splits)
      next
        case nn: False
        with False yes show ?thesis
          by (simp add: saveTaskPG_def q toLowerCase_assignee notifies_eq)
      qed
    qed
  qed
qed

lemma assign_row_id: "assign c v r = Inr r' \<Longrightarrow> row_id r' = row_id r"
  by (auto simp: assign_def split: if_splits option.splits sum.splits)

lemma set_columns_row_id: "set_columns cvs r = Inr r' \<Longrightarrow> row_id r' = row_id r"
proof (induction cvs arbitrary: r)
  case Nil
  then show ?case by simp
next
  case (Cons cv cvs)
  then show ?case
    by (cases cv) (auto split: sum.splits dest: assign_row_id)
qed

lemma update_where_row_ids:
  "update_where n f rs = Inr rs' \<Longrightarrow> (\<And>r r'. f r = Inr r' \<Longrightarrow> row_id r' = row_id r) \<Longrightarrow>
   map row_id rs' = map row_id rs"
proof (induction rs arbitrary: rs')
  case Nil
  then show ?case by simp
next
  case (Cons r rs)
  then show ?case
    by (auto split: sum.splits if_splits)
qed

lemma table_ok_ids: "table_ok t \<longleftrightarrow> (\<forall>i \<in> set (map row_id (rows t)). i < serial t)"
  by (simp add: table_ok_def list_all_iff)

lemma table_ok_empty: "table_ok \<lparr>rows = [], serial = 1\<rparr>"
  by (simp add: table_ok_def)

text \<open>
  Every row id is below the next value of the sequence: this holds of the empty table the
  server creates and every statement the server issues keeps it.
\<close>

lemma exec_table_ok:
  assumes "exec q params t = Inr (res, t')" and "table_ok t"
  shows "table_ok t'"
proof (cases q)
  case SELECT_tasks
  with assms show ?thesis
    by (simp add: exec_def)
next
  case (UPDATE_tasks cols)
  with assms(1) have u: "exec_update cols params t = Inr t'"
    by (cases "exec_update cols params t") (simp_all add: exec_def)
  have "map row_id (rows t') = map row_id (rows t) \<and> serial t' = serial t"
    using u
    by (auto simp: exec_update_def split: if_splits sum.splits option.splits
          dest!: update_where_row_ids dest: set_columns_row_id)
  with assms(2) show ?thesis
    by (simp add: table_ok_ids)
next
  case INSERT_tasks
  with assms(1) have "exec_insert params t = Inr t'"
    by (cases "exec_insert params t") (simp_all add: exec_def)
  with assms(2) show ?thesis
    by (fastforce simp: exec_insert_def table_ok_def list_all_iff
          split: if_splits sum.splits option.splits)
next
  case DELETE_tasks
  with assms(1) have "exec_delete params t = Inr t'"
    by (cases "exec_delete params t") (simp_all add: exec_def)
  with assms(2) show ?thesis
    by (auto simp: exec_delete_def table_ok_def list_all_iff
          split: list.splits sum.splits option.splits)
qed

lemma add_action_local:
  assumes "\<not> usePostgres v" and "\<not> fs_write_fault v"
  shows "add_action q v =
     (Inr (True, False),
      v\<lparr>ticks := Suc (Suc (Suc (ticks v))),
        tasks_file := Doc (getTasksLocal v @
          [q(''id'' \<mapsto> JNum (clock v (ticks v)),
             ''createdAt'' \<mapsto> JNum (clock v (Suc (ticks v))),
             ''updatedAt'' \<mapsto> JNum (clock v (Suc (Suc (ticks v)))))])\<rparr>)"
  using assms by (simp add: add_action_def saveTasksLocal_def Date_now_def Let_def)

lemma POST_add: "POST_tasks_try (add_body p) w = add_action p w"
  by (simp add: POST_tasks_try_def add_body_def)

lemma POST_add_local_io:
  assumes "\<not> usePostgres v"
  shows "io (snd (POST_tasks (Some (add_body q)) v)) = io v"
proof (cases "fs_write_fault v")
  case True
  with assms have "add_action q v = (Inl IOError, v\<lparr>ticks := Suc (Suc (Suc (ticks v)))\<rparr>)"
    by (simp add: add_action_def saveTasksLocal_def Date_now_def Let_def)
  then show ?thesis
    by (simp add: POST_tasks_def POST_add)
next
  case False
  with assms show ?thesis
    by (simp add: POST_tasks_def POST_add add_action_local Date_now_def)
qed

text \<open>
  C2, as amended. An insert (no id, or a number that is not positive). On the relational
  store, when \<open>saveTaskPG\<close> returns true, one row is appended: its id is the next
  value of the sequence, which no existing row has; \<^verbatim>\<open>created_at\<close> and
  \<^verbatim>\<open>updated_at\<close> are the two clock readings taken for the statement, one after the
  other; a missing column becomes backlog, a missing priority medium, and a missing title,
  description, tag, assignee, emoji or due date the empty string. On the file store the
  handler appends the payload with \<^verbatim>\<open>id\<close>, \<^verbatim>\<open>createdAt\<close> and \<^verbatim>\<open>updatedAt\<close>
  set to three successive clock readings, and nothing else: no defaults, and no check of
  the id against the ids in the file.
\<close>

theorem insert_assigns_and_defaults:
  assumes "pgClient w = Some t" and "table_ok t" and "no_positive_id p"
    and "saveTaskPG p w = (True, w')"
    and "\<not> usePostgres v" and "\<not> fs_write_fault v"
  shows "pgClient w' =
           Some (t\<lparr>rows := rows t @
                     [inserted_row p (serial t) (clock w (ticks w)) (clock w (Suc (ticks w)))],
                   serial := serial t + 1\<rparr>)
       \<and> serial t \<notin> row_id ` set (rows t)
       \<and> table_ok (t\<lparr>rows := rows t @
                     [inserted_row p (serial t) (clock w (ticks w)) (clock w (Suc (ticks w)))],
                   serial := serial t + 1\<rparr>)
       \<and> (\<forall>n c u. row_id (inserted_row p n c u) = n
             \<and> created_at (inserted_row p n c u) = Some c
             \<and> updated_at (inserted_row p n c u) = Some u
             \<and> (p ''title'' = None \<longrightarrow> title (inserted_row p n c u) = [])
             \<and> (p ''description'' = None \<longrightarrow> description (inserted_row p n c u) = Some [])
             \<and> (p ''column'' = None \<longrightarrow> column_name (inserted_row p n c u) = Some ''backlog'')
             \<and> (p ''tag'' = None \<longrightarrow> tag (inserted_row p n c u) = Some [])
             \<and> (p ''assignee'' = None \<longrightarrow> assignee (inserted_row p n c u) = Some [])
             \<and> (p ''priority'' = None \<longrightarrow> priority (inserted_row p n c u) = Some ''medium'')
             \<and> (p ''emoji'' = None \<longrightarrow> emoji (inserted_row p n c u) = Some [])
             \<and> (p ''dueDate'' = None \<longrightarrow> due_date (inserted_row p n c u) = Some []))
       \<and> add_action q v =
           (Inr (True, False),
            v\<lparr>ticks := Suc (Suc (Suc (ticks v))),
              tasks_file := Doc (getTasksLocal v @
                [q(''id'' \<mapsto> JNum (clock v (ticks v)),
                   ''createdAt'' \<mapsto> JNum (clock v (Suc (ticks v))),
                   ''updatedAt'' \<mapsto> JNum (clock v (Suc (Suc (ticks v)))))])\<rparr>)"
proof -
  let ?t' = "t\<lparr>rows := rows t @
                     [inserted_row p (serial t) (clock w (ticks w)) (clock w (Suc (ticks w)))],
                   serial := serial t + 1\<rparr>"
  have c1: "pgClient w' = Some ?t'"
    using assms(4)
    by (auto simp: saveTaskPG_insert_branch [OF assms(1,3)] after_insert_def
          split: if_splits option.splits)
  have c2: "serial t \<notin> row_id ` set (rows t)"
    using assms(2) by (auto simp: table_ok_def list_all_iff)
  have c3: "table_ok ?t'"
    using assms(2) by (auto simp: table_ok_def list_all_iff inserted_row_def)
  have c5: "add_action q v =
           (Inr (True, False),
            v\<lparr>ticks := Suc (Suc (Suc (ticks v))),
              tasks_file := Doc (getTasksLocal v @
                [q(''id'' \<mapsto> JNum (clock v (ticks v)),
                   ''createdAt'' \<mapsto> JNum (clock v (Suc (ticks v))),
                   ''updatedAt'' \<mapsto> JNum (clock v (Suc (Suc (ticks v)))))])\<rparr>)"
    using assms(5,6) by (rule add_action_local)
  from c1 c2 c3 c5 show ?thesis
    by (intro conjI allI) (simp_all add: inserted_row_def defaulted_def)
qed

lemma demo_table_ok: "table_ok demo_table"
  by (simp add: table_ok_def demo_table_def row1_def row2_def)

lemma clawd_payload_facts:
  "no_positive_id clawd_payload" "text_assignee clawd_payload" "notifies clawd_payload"
  "clawd_payload ''id'' = None" "clawd_payload ''column'' = None"
  "clawd_payload ''priority'' = None" "clawd_payload ''assignee'' = Some (JStr ''Clawd'')"
  "clawd_payload ''title'' = Some (JStr ''X'')"
  by (simp_all add: clawd_payload_def no_positive_id_def text_assignee_def notifies_def
        toLowerChar_def)

lemma plain_payload_facts:
  "no_positive_id plain_payload" "text_assignee plain_payload" "\<not> notifies plain_payload"
  by (simp_all add: plain_payload_def no_positive_id_def text_assignee_def notifies_def
        toLowerChar_def)

lemma demo_serial: "serial demo_table = 3" "rows demo_table = [row1, row2]"
  by (simp_all add: demo_table_def)

lemma saveTaskPG_clawd_demo:
  "saveTaskPG clawd_payload pg_world =
     (True, (after_insert clawd_payload demo_table pg_world)
               \<lparr>ticks := Suc (Suc (Suc (Suc (ticks pg_world)))),
                io := Some (emit (clawd_event clawd_payload pg_world) demo_server)\<rparr>)"
  by (simp add: saveTaskPG_insert_branch [OF pg_world_flags(2) clawd_payload_facts(1)]
        pg_world_flags clawd_payload_facts demo_serial)

lemma saveTaskPG_plain_demo:
  "saveTaskPG plain_payload pg_world = (True, after_insert plain_payload demo_table pg_world)"
  by (simp add: saveTaskPG_insert_branch [OF pg_world_flags(2) plain_payload_facts(1)]
        pg_world_flags plain_payload_facts demo_serial)

theorem insert_assigns_and_defaults_witness:
  "pgClient pg_world = Some demo_table \<and> table_ok demo_table \<and> no_positive_id clawd_payload
   \<and> fst (saveTaskPG clawd_payload pg_world) = True
   \<and> \<not> usePostgres file_world \<and> \<not> fs_write_fault file_world
   \<and> map row_id (rows (the (pgClient (snd (saveTaskPG clawd_payload pg_world))))) = [1, 2, 3]
   \<and> map column_name (rows (the (pgClient (snd (saveTaskPG clawd_payload pg_world)))))
        = [Some ''progress'', Some ''done'', Some ''backlog'']
   \<and> map priority (rows (the (pgClient (snd (saveTaskPG clawd_payload pg_world)))))
        = [Some ''high'', Some ''medium'', Some ''medium'']
   \<and> map created_at (rows (the (pgClient (snd (saveTaskPG clawd_payload pg_world)))))
        = [Some 1600000000000, Some 1600000000001, Some 1700000000000]
   \<and> map updated_at (rows (the (pgClient (snd (saveTaskPG clawd_payload pg_world)))))
        = [Some 1600000000000, Some 1600000000002, Some 1700000000001]
   \<and> map (field ''id'') (getTasksLocal (snd (add_action clawd_payload file_world)))
        = [Some (JNum 1), Some (JNum 2), Some (JNum 1700000000000)]"
proof -
  have s: "saveTaskPG clawd_payload pg_world = (True, snd (saveTaskPG clawd_payload pg_world))"
    by (simp add: saveTaskPG_clawd_demo)
  have s': "fst (saveTaskPG clawd_payload pg_world) = True"
    by (simp add: saveTaskPG_clawd_demo)
  note r = insert_assigns_and_defaults [of pg_world demo_table clawd_payload
      "snd (saveTaskPG clawd_payload pg_world)" file_world clawd_payload,
      OF pg_world_flags(2) demo_table_ok clawd_payload_facts(1) s file_world_flags(1,2)]
  have g: "pgClient (snd (saveTaskPG clawd_payload pg_world)) =
      Some (demo_table\<lparr>rows := rows demo_table @
         [inserted_row clawd_payload (serial demo_table) (clock pg_world (ticks pg_world))
            (clock pg_world (Suc (ticks pg_world)))],
         serial := serial demo_table + 1\<rparr>)"
    using r by blast
  have a: "add_action clawd_payload file_world =
           (Inr (True, False),
            file_world\<lparr>ticks := Suc (Suc (Suc (ticks file_world))),
              tasks_file := Doc (getTasksLocal file_world @
                [clawd_payload(''id'' \<mapsto> JNum (clock file_world (ticks file_world)),
                   ''createdAt'' \<mapsto> JNum (clock file_world (Suc (ticks file_world))),
                   ''updatedAt'' \<mapsto> JNum (clock file_world (Suc (Suc (ticks file_world)))))])\<rparr>)"
    using r by blast
  have i: "task1 ''id'' = Some (JNum 1)" "task2 ''id'' = Some (JNum 2)"
    by (simp_all add: task1_def task2_def)
  from g a s' i show ?thesis
    by (simp add: pg_world_flags file_world_flags demo_table_ok clawd_payload_facts demo_serial
          inserted_row_def defaulted_def row1_def row2_def field_def getTasksLocal_Doc
          file_world_tasks)
qed

text \<open>
  The claim as stated fails on the file store: the task added from a payload without
  column and priority is stored without them.
\<close>

theorem insert_file_counterexample:
  "clawd_payload ''id'' = None \<and> clawd_payload ''column'' = None
   \<and> clawd_payload ''priority'' = None
   \<and> fst (POST_tasks (Some (add_body clawd_payload)) file_world) = Success True 1700000000003
   \<and> map (field ''column'')
        (getTasksLocal (snd (POST_tasks (Some (add_body clawd_payload)) file_world)))
      = [Some (JStr ''progress''), Some (JStr ''archive''), None]
   \<and> map (field ''priority'')
        (getTasksLocal (snd (POST_tasks (Some (add_body clawd_payload)) file_world)))
      = [None, None, None]"
proof -
  have t: "task1 ''column'' = Some (JStr ''progress'')" "task2 ''column'' = Some (JStr ''archive'')"
    "task1 ''priority'' = None" "task2 ''priority'' = None"
    by (simp_all add: task1_def task2_def)
  show ?thesis
    by (simp add: POST_tasks_def POST_add add_action_local [OF file_world_flags(1,2)]
          Date_now_def file_world_flags file_world_tasks getTasksLocal_Doc field_def
          clawd_payload_facts t)
qed

lemma saveTaskPG_insert_io:
  assumes "pgClient w = Some t" and "usePostgres w" and "io w = Some s" and "no_positive_id p"
    and "saveTaskPG p w = (True, w')"
  shows "io w' = Some (if notifies p then emit (clawd_event p w) s else s)
       \<and> pgClient w' =
           Some (t\<lparr>rows := rows t @
                     [inserted_row p (serial t) (clock w (ticks w)) (clock w (Suc (ticks w)))],
                   serial := serial t + 1\<rparr>)
       \<and> serial t \<le> 2147483647"
  using assms(2,3,5)
  by (auto simp: saveTaskPG_insert_branch [OF assms(1,4)] after_insert_def split: if_splits)

lemma emit_inbox:
  "inbox (emit e s) c = (if c \<in> set (sockets s) then inbox s c @ [e] else inbox s c)"
  "sockets (emit e s) = sockets s"
  by (simp_all add: emit_def)

text \<open>
  C9, as amended. In PostgreSQL mode with the channel up, an insert for which
  \<open>saveTaskPG\<close> returns true sends one \<^verbatim>\<open>clawd:task\<close> event to every connected
  session when the assignee, in lower case, contains clawd or jarvis, and none otherwise.
  The event carries the payload with its id set to a clock reading, and the message built
  from the title. In local mode an insert sends nothing.
\<close>

theorem insert_notification:
  assumes "pgClient w = Some t" and "usePostgres w" and "io w = Some s" and "no_positive_id p"
    and "saveTaskPG p w = (True, w')"
    and "\<not> usePostgres v"
  shows "io w' = Some (if notifies p then emit (clawd_event p w) s else s)
       \<and> clawd_event p w =
           Clawd_task (p(''id'' \<mapsto> JNum (clock w (Suc (Suc (ticks w)))))) (clawd_message p)
             (clock w (Suc (Suc (Suc (ticks w)))))
       \<and> (\<forall>c \<in> set (sockets s). inbox (emit (clawd_event p w) s) c = inbox s c @ [clawd_event p w])
       \<and> io (snd (POST_tasks (Some (add_body q)) v)) = io v"
proof -
  have c1: "io w' = Some (if notifies p then emit (clawd_event p w) s else s)"
    using saveTaskPG_insert_io [OF assms(1-5)] by blast
  have c2: "io (snd (POST_tasks (Some (add_body q)) v)) = io v"
    using assms(6) by (rule POST_add_local_io)
  from c1 c2 show ?thesis
    by (simp add: clawd_event_def emit_inbox)
qed

theorem insert_notification_witness:
  "pgClient pg_world = Some demo_table \<and> usePostgres pg_world \<and> io pg_world = Some demo_server
   \<and> no_positive_id clawd_payload \<and> notifies clawd_payload
   \<and> fst (saveTaskPG clawd_payload pg_world) = True
   \<and> \<not> usePostgres file_world
   \<and> inbox (the (io (snd (saveTaskPG clawd_payload pg_world)))) ''s1''
        = [Clawd_task (clawd_payload(''id'' \<mapsto> JNum 1700000000002))
             ([CHR 0xF0, CHR 0x9F, CHR 0x93, CHR 0x8B] @ '' Nova task para Clawd: X'')
             1700000000003]
   \<and> inbox (the (io (snd (saveTaskPG clawd_payload pg_world)))) ''s2''
        = inbox (the (io (snd (saveTaskPG clawd_payload pg_world)))) ''s1''
   \<and> no_positive_id plain_payload \<and> \<not> notifies plain_payload
   \<and> fst (saveTaskPG plain_payload pg_world) = True
   \<and> inbox (the (io (snd (saveTaskPG plain_payload pg_world)))) ''s1'' = []"
proof -
  have s: "saveTaskPG clawd_payload pg_world = (True, snd (saveTaskPG clawd_payload pg_world))"
    "saveTaskPG plain_payload pg_world = (True, snd (saveTaskPG plain_payload pg_world))"
    by (simp_all add: saveTaskPG_clawd_demo saveTaskPG_plain_demo)
  have s': "fst (saveTaskPG clawd_payload pg_world) = True"
    "fst (saveTaskPG plain_payload pg_world) = True"
    by (simp_all add: saveTaskPG_clawd_demo saveTaskPG_plain_demo)
  have a: "io (snd (saveTaskPG clawd_payload pg_world)) =
      Some (if notifies clawd_payload then emit (clawd_event clawd_payload pg_world) demo_server
            else demo_server)"
    using insert_notification [of pg_world demo_table demo_server clawd_payload
        "snd (saveTaskPG clawd_payload pg_world)" file_world clawd_payload,
        OF pg_world_flags(2,1,7) clawd_payload_facts(1) s(1) file_world_flags(1)]
    by blast
  have b: "io (snd (saveTaskPG plain_payload pg_world)) =
      Some (if notifies plain_payload then emit (clawd_event plain_payload pg_world) demo_server
            else demo_server)"
    using insert_notification [of pg_world demo_table demo_server plain_payload
        "snd (saveTaskPG plain_payload pg_world)" file_world clawd_payload,
        OF pg_world_flags(2,1,7) plain_payload_facts(1) s(2) file_world_flags(1)]
    by blast
  from a b s' show ?thesis
    by (simp add: pg_world_flags file_world_flags clawd_payload_facts plain_payload_facts
          emit_inbox demo_server_def clawd_event_def clawd_message_def)
qed

text \<open>
  The claim as stated fails in local mode: the task assigned to Clawd is added and no
  session is sent anything.
\<close>

theorem insert_notification_file_counterexample:
  "notifies clawd_payload \<and> clawd_payload ''id'' = None
   \<and> sockets (the (io file_world)) = [''s1'', ''s2'']
   \<and> fst (POST_tasks (Some (add_body clawd_payload)) file_world) = Success True 1700000000003
   \<and> map (field ''assignee'')
        (getTasksLocal (snd (POST_tasks (Some (add_body clawd_payload)) file_world)))
      = [None, None, Some (JStr ''Clawd'')]
   \<and> inbox (the (io (snd (POST_tasks (Some (add_body clawd_payload)) file_world)))) ''s1'' = []
   \<and> inbox (the (io (snd (POST_tasks (Some (add_body clawd_payload)) file_world)))) ''s2'' = []"
proof -
  have t: "task1 ''assignee'' = None" "task2 ''assignee'' = None"
    by (simp_all add: task1_def task2_def)
  have i: "io file_world = Some demo_server"
    by (simp add: file_world_def)
  show ?thesis
    by (simp add: POST_tasks_def POST_add add_action_local [OF file_world_flags(1,2)]
          Date_now_def file_world_flags file_world_tasks getTasksLocal_Doc field_def
          clawd_payload_facts t i demo_server_def)
qed

text \<open>
  C10. When an insert into the relational store sends the notification, the task in the
  event has the clock reading taken just before the emission as its id, while the row has
  the value of the sequence, which is at most 2147483647. A wall clock is later than that
  many milliseconds after the epoch (25 January 1970), so the two differ; given the table
  invariant, no row at all has the id of the event.
\<close>

theorem notification_id_not_row_id:
  assumes "pgClient w = Some t" and "usePostgres w" and "io w = Some s" and "no_positive_id p"
    and "saveTaskPG p w = (True, w')" and "notifies p"
    and "2147483647 < clock w (Suc (Suc (ticks w)))"
  shows "\<exists>tk msg ts t'.
           io w' = Some (emit (Clawd_task tk msg ts) s)
         \<and> tk ''id'' = Some (JNum (clock w (Suc (Suc (ticks w)))))
         \<and> pgClient w' = Some t'
         \<and> rows t' \<noteq> []
         \<and> row_id (last (rows t')) = serial t
         \<and> row_id (last (rows t')) \<le> 2147483647
         \<and> tk ''id'' \<noteq> Some (JNum (row_id (last (rows t'))))
         \<and> (table_ok t \<longrightarrow> (\<forall>r \<in> set (rows t'). tk ''id'' \<noteq> Some (JNum (row_id r))))"
proof -
  let ?new = "inserted_row p (serial t) (clock w (ticks w)) (clock w (Suc (ticks w)))"
  let ?t' = "t\<lparr>rows := rows t @ [?new], serial := serial t + 1\<rparr>"
  let ?tk = "p(''id'' \<mapsto> JNum (clock w (Suc (Suc (ticks w)))))"
  from saveTaskPG_insert_io [OF assms(1-5)] assms(6)
  have i: "io w' = Some (emit (clawd_event p w) s)" and g: "pgClient w' = Some ?t'"
    and b: "serial t \<le> 2147483647"
    by simp_all
  have n: "row_id ?new = serial t"
    by (simp add: inserted_row_def)
  have a: "table_ok t \<longrightarrow> (\<forall>r \<in> set (rows ?t'). ?tk ''id'' \<noteq> Some (JNum (row_id r)))"
    using assms(7) b n by (auto simp: table_ok_def list_all_iff)
  show ?thesis
    apply (rule exI [of _ ?tk])
    apply (rule exI [of _ "clawd_message p"])
    apply (rule exI [of _ "clock w (Suc (Suc (Suc (ticks w))))"])
    apply (rule exI [of _ ?t'])
    using i g b n a assms(7) apply (simp add: clawd_event_def)
    done
qed

theorem notification_id_not_row_id_witness:
  "pgClient pg_world = Some demo_table \<and> usePostgres pg_world \<and> io pg_world = Some demo_server
   \<and> no_positive_id clawd_payload \<and> fst (saveTaskPG clawd_payload pg_world) = True
   \<and> notifies clawd_payload \<and> 2147483647 < clock pg_world (Suc (Suc (ticks pg_world)))
   \<and> (\<exists>tk msg ts. inbox (the (io (snd (saveTaskPG clawd_payload pg_world)))) ''s1''
                     = [Clawd_task tk msg ts] \<and> tk ''id'' = Some (JNum 1700000000002))
   \<and> map row_id (rows (the (pgClient (snd (saveTaskPG clawd_payload pg_world))))) = [1, 2, 3]"
proof -
  have s: "saveTaskPG clawd_payload pg_world = (True, snd (saveTaskPG clawd_payload pg_world))"
    by (simp add: saveTaskPG_clawd_demo)
  have s': "fst (saveTaskPG clawd_payload pg_world) = True"
    by (simp add: saveTaskPG_clawd_demo)
  have c: "2147483647 < clock pg_world (Suc (Suc (ticks pg_world)))"
    by (simp add: pg_world_flags)
  from notification_id_not_row_id [of pg_world demo_table demo_server clawd_payload
      "snd (saveTaskPG clawd_payload pg_world)",
      OF pg_world_flags(2,1,7) clawd_payload_facts(1) s clawd_payload_facts(3) c]
  obtain tk msg ts t' where
    e: "io (snd (saveTaskPG clawd_payload pg_world)) = Some (emit (Clawd_task tk msg ts) demo_server)"
    and k: "tk ''id'' = Some (JNum (clock pg_world (Suc (Suc (ticks pg_world)))))"
    by blast
  have i: "inbox (the (io (snd (saveTaskPG clawd_payload pg_world)))) ''s1'' = [Clawd_task tk msg ts]"
    by (simp add: e emit_inbox demo_server_def)
  have r: "map row_id (rows (the (pgClient (snd (saveTaskPG clawd_payload pg_world))))) = [1, 2, 3]"
    by (simp add: saveTaskPG_clawd_demo after_insert_def demo_serial inserted_row_def
          row1_def row2_def)
  from i k r s' c show ?thesis
    by (simp add: pg_world_flags clawd_payload_facts)
qed

subsection \<open>Errors, broadcasts and the realtime channel\<close>

lemma pg_query_effects:
  assumes "pg_query q ps w = (r, w')"
  shows "same_env w w' \<and> io w' = io w \<and> ticks w' = ticks w
       \<and> (case r of
             Inl e \<Rightarrow> pgClient w' = pgClient w
           | Inr x \<Rightarrow> (\<exists>t'. pgClient w' = Some t') \<and> pg_calls w' = Suc (pg_calls w))"
  using assms
  by (auto simp: pg_query_def same_env_def split: option.splits if_splits sum.splits prod.splits)

lemma clawd_or_same_refl [simp]: "clawd_or_same i i"
  by (simp add: clawd_or_same_def)

lemma clawd_or_same_emit [simp]: "clawd_or_same (Some s) (Some (emit (Clawd_task tk msg n) s))"
  by (auto simp: clawd_or_same_def)

lemma broadcastClawdNotification_effects:
  assumes "broadcastClawdNotification tk w = (r, w')"
  shows "same_env w w' \<and> clawd_or_same (io w) (io w') \<and> pgClient w' = pgClient w
       \<and> pg_calls w' = pg_calls w"
  using assms
  by (auto simp: broadcastClawdNotification_def same_env_def Date_now_def
        split: option.splits if_splits sum.splits)

lemma saveTaskPG_update_effects:
  assumes "saveTaskPG_update p w = (r, w')"
  shows "same_env w w' \<and> io w' = io w
       \<and> (r = Inr True \<longrightarrow> (\<exists>t'. pgClient w' = Some t') \<and> pg_calls w' = Suc (pg_calls w))"
proof -
  let ?w1 = "w\<lparr>ticks := Suc (ticks w)\<rparr>"
  obtain cols ps where q: "saveTaskPG_update p w =
      (case pg_query (UPDATE_tasks cols) ps ?w1 of
         (Inl e, w2) \<Rightarrow> (Inl e, w2)
       | (Inr res, w2) \<Rightarrow> (Inr True, w2))"
    by (simp add: saveTaskPG_update_def Date_now_def Let_def)
  obtain r2 w2 where p2: "pg_query (UPDATE_tasks cols) ps ?w1 = (r2, w2)"
    by (cases "pg_query (UPDATE_tasks cols) ps ?w1")
  from pg_query_effects [OF p2] q p2 assms show ?thesis
    by (auto simp: same_env_def split: sum.splits)
qed

lemma same_env_refl [simp]: "same_env w w"
  by (simp add: same_env_def)

lemma same_env_trans: "same_env w w1 \<Longrightarrow> same_env w1 w2 \<Longrightarrow> same_env w w2"
  by (simp add: same_env_def)

lemma same_env_ticks [simp]: "same_env w (w'\<lparr>ticks := k\<rparr>) = same_env w w'"
  "same_env (w\<lparr>ticks := k\<rparr>) w' = same_env w w'"
  by (simp_all add: same_env_def)

lemma saveTaskPG_insert_effects:
  assumes "saveTaskPG_insert p w = (r, w')"
  shows "same_env w w' \<and> clawd_or_same (io w) (io w')
       \<and> (r = Inr True \<longrightarrow> (\<exists>t'. pgClient w' = Some t') \<and> pg_calls w' = Suc (pg_calls w))"
proof -
  let ?w2 = "w\<lparr>ticks := Suc (Suc (ticks w))\<rparr>"
  obtain ps where q: "saveTaskPG_insert p w =
      (case pg_query INSERT_tasks ps ?w2 of
           (Inl e, w3) \<Rightarrow> (Inl e, w3)
         | (Inr res, w3) \<Rightarrow>
             (case toLowerCase (js_or (p ''assignee'') (Some (JStr []))) of
                Inl e \<Rightarrow> (Inl e, w3)
              | Inr a \<Rightarrow>
                  if includes_str a ''clawd'' \<or> includes_str a ''jarvis'' then
                    (case broadcastClawdNotification (p(''id'' \<mapsto> JNum (clock w3 (ticks w3))))
                            (w3\<lparr>ticks := Suc (ticks w3)\<rparr>) of
                          (Inl e, w5) \<Rightarrow> (Inl e, w5)
                        | (Inr u, w5) \<Rightarrow> (Inr True, w5))
                  else (Inr True, w3)))"
    by (simp add: saveTaskPG_insert_def Date_now_def Let_def
          cong: prod.case_cong sum.case_cong if_cong)
  obtain r3 w3 where p3: "pg_query INSERT_tasks ps ?w2 = (r3, w3)"
    by (cases "pg_query INSERT_tasks ps ?w2")
  note e3 = pg_query_effects [OF p3]
  show ?thesis
  proof (cases r3)
    case (Inl e)
    with q p3 e3 assms show ?thesis
      by auto
  next
    case (Inr res)
    let ?tk = "p(''id'' \<mapsto> JNum (clock w3 (ticks w3)))"
    obtain r5 w5 where p5:
      "broadcastClawdNotification ?tk (w3\<lparr>ticks := Suc (ticks w3)\<rparr>) = (r5, w5)"
      by (cases "broadcastClawdNotification ?tk (w3\<lparr>ticks := Suc (ticks w3)\<rparr>)")
    note e5 = broadcastClawdNotification_effects [OF p5]
    from e3 e5 have env: "same_env w w3" "same_env w w5"
      by (auto intro: same_env_trans)
    from Inr q p3 p5 e3 e5 env assms show ?thesis
      by (auto split: sum.splits if_splits)
  qed
qed

lemma saveTaskPG_effects:
  assumes "saveTaskPG p w = (b, w')"
  shows "same_env w w' \<and> clawd_or_same (io w) (io w')
       \<and> (b \<longrightarrow> (\<exists>t'. pgClient w' = Some t') \<and> pg_calls w' = Suc (pg_calls w))"
proof -
  obtain r where t: "saveTaskPG_try p w = (r, w')" and b: "b = (r = Inr True)"
    using assms by (auto simp: saveTaskPG_def split: prod.splits sum.splits)
  show ?thesis
  proof (cases "pgClient w = None")
    case True
    with t b show ?thesis
      by (auto simp: saveTaskPG_try_def)
  next
    case False
    show ?thesis
    proof (cases "truthy (p ''id'') \<and> js_gt0 (p ''id'')")
      case True
      with False t have "saveTaskPG_update p w = (r, w')"
        by (auto simp: saveTaskPG_try_def split: if_splits)
      from saveTaskPG_update_effects [OF this] b show ?thesis
        by auto
    next
      case no: False
      with False t have "saveTaskPG_insert p w = (r, w')"
        by (auto simp: saveTaskPG_try_def split: if_splits)
      from saveTaskPG_insert_effects [OF this] b show ?thesis
        by auto
    qed
  qed
qed

lemma deleteTaskPG_effects:
  assumes "deleteTaskPG tid w = (b, w')"
  shows "same_env w w' \<and> io w' = io w \<and> ticks w' = ticks w
       \<and> (b \<longrightarrow> (\<exists>t'. pgClient w' = Some t') \<and> pg_calls w' = Suc (pg_calls w))"
proof -
  obtain r2 w2 where p2: "pg_query DELETE_tasks [tid] w = (r2, w2)"
    by (cases "pg_query DELETE_tasks [tid] w")
  from pg_query_effects [OF p2] p2 assms show ?thesis
    by (auto simp: deleteTaskPG_def deleteTaskPG_try_def split: sum.splits)
qed

lemma broadcastTasks_eq:
  "broadcastTasks x =
     (case io x of
        None \<Rightarrow> x
      | Some s \<Rightarrow>
          if usePostgres x
          then (snd (getTasksPG x))
                 \<lparr>ticks := Suc (ticks x),
                  io := Some (emit (Tasks_update (fst (getTasksPG x)) (clock x (ticks x))) s)\<rparr>
          else x)"
  by (auto simp: broadcastTasks_def getTasksPG_eq Date_now_def split: option.splits)





lemma saveTaskPG_fault:
  assumes "pgClient w = None \<or> pg_fault w (pg_calls w)"
  shows "fst (saveTaskPG p w) = False"
  using assms
  by (auto simp: saveTaskPG_def saveTaskPG_try_def saveTaskPG_update_def saveTaskPG_insert_def
        pg_query_def Date_now_def Let_def split: option.splits)

lemma deleteTaskPG_fault:
  assumes "pgClient w = None \<or> pg_fault w (pg_calls w)"
  shows "fst (deleteTaskPG tid w) = False"
  using assms
  by (auto simp: deleteTaskPG_def deleteTaskPG_try_def pg_query_def split: option.splits)

lemma getTasksPG_fault:
  assumes "pgClient w = None \<or> pg_fault w (pg_calls w)"
  shows "fst (getTasksPG w) = []"
  using assms by (auto simp: getTasksPG_eq split: option.splits)

text \<open>
  C3, as amended. The three functions of the relational store catch whatever their body
  throws and return the empty list or false, in particular when \<^verbatim>\<open>pgClient\<close> is null
  or the query fails; \<open>getTasksLocal\<close> returns the empty list when the file is
  missing, is not JSON or cannot be read. \<open>saveTasksLocal\<close> has no handler: a failed
  write is thrown to the HTTP handler, whose own \<^verbatim>\<open>catch\<close> answers with status 400,
  for an add, a delete and an update of a task that is there.
\<close>

theorem store_errors:
  assumes "pgClient w = None \<or> pg_fault w (pg_calls w)"
    and "tasks_file v = Missing \<or> tasks_file v = Garbage \<or> fs_read_fault v"
    and "\<not> usePostgres u" and "fs_write_fault u"
  shows "fst (getTasksPG w) = [] \<and> fst (saveTaskPG p w) = False
       \<and> fst (deleteTaskPG tid w) = False
       \<and> (\<forall>e x'. getTasksPG_try x = (Inl e, x') \<longrightarrow> getTasksPG x = ([], x'))
       \<and> (\<forall>e x'. saveTaskPG_try p x = (Inl e, x') \<longrightarrow> saveTaskPG p x = (False, x'))
       \<and> (\<forall>e x'. deleteTaskPG_try tid x = (Inl e, x') \<longrightarrow> deleteTaskPG tid x = (False, x'))
       \<and> getTasksLocal v = []
       \<and> saveTasksLocal ts u = Inl IOError
       \<and> fst (POST_tasks (Some (add_body q)) u) = Bad_request
       \<and> (n \<noteq> 0 \<longrightarrow> fst (POST_tasks (Some (delete_body n)) u) = Bad_request)
       \<and> (q ''id'' \<in> (\<lambda>x. x ''id'') ` set (getTasksLocal u) \<longrightarrow>
            fst (POST_tasks (Some (update_body q)) u) = Bad_request)"
proof -
  have c1: "fst (getTasksPG w) = []" "fst (saveTaskPG p w) = False"
    "fst (deleteTaskPG tid w) = False"
    using assms(1) by (rule getTasksPG_fault saveTaskPG_fault deleteTaskPG_fault)+
  have c2: "getTasksLocal v = []"
    using assms(2) by (auto simp: getTasksLocal_def split: tasks_json.splits)
  have c3: "saveTasksLocal ts u = Inl IOError"
    using assms(4) by (simp add: saveTasksLocal_def)
  have c4: "fst (POST_tasks (Some (add_body q)) u) = Bad_request"
    using assms(3,4)
    by (simp add: POST_tasks_def POST_add add_action_def saveTasksLocal_def Date_now_def Let_def)
  have c5: "n \<noteq> 0 \<longrightarrow> fst (POST_tasks (Some (delete_body n)) u) = Bad_request"
    using assms(3,4)
    by (simp add: POST_tasks_def POST_tasks_try_def delete_body_def delete_action_def
          saveTasksLocal_def Let_def)
  have c6: "q ''id'' \<in> (\<lambda>x. x ''id'') ` set (getTasksLocal u) \<longrightarrow>
      fst (POST_tasks (Some (update_body q)) u) = Bad_request"
  proof
    assume "q ''id'' \<in> (\<lambda>x. x ''id'') ` set (getTasksLocal u)"
    then have "findIndex (\<lambda>x. x ''id'' = q ''id'') (getTasksLocal u) \<noteq> None"
      by (auto simp: findIndex_None)
    then obtain idx where "findIndex (\<lambda>x. x ''id'' = q ''id'') (getTasksLocal u) = Some idx"
      by auto
    with assms(3,4) show "fst (POST_tasks (Some (update_body q)) u) = Bad_request"
      by (simp add: POST_tasks_def POST_update update_action_def saveTasksLocal_def Date_now_def
            Let_def)
  qed
  from c1 c2 c3 c4 c5 c6 show ?thesis
    by (simp add: getTasksPG_def saveTaskPG_def deleteTaskPG_def)
qed

theorem store_errors_witness:
  "(pgClient pg_down = None \<or> pg_fault pg_down (pg_calls pg_down))
   \<and> (tasks_file garbled = Missing \<or> tasks_file garbled = Garbage \<or> fs_read_fault garbled)
   \<and> \<not> usePostgres broken_disk \<and> fs_write_fault broken_disk
   \<and> fst (getTasksPG pg_down) = [] \<and> fst (saveTaskPG clawd_payload pg_down) = False
   \<and> fst (deleteTaskPG (Some (JNum 1)) pg_down) = False
   \<and> getTasksLocal garbled = []
   \<and> fst (POST_tasks (Some (add_body clawd_payload)) broken_disk) = Bad_request
   \<and> retitle_payload ''id'' \<in> (\<lambda>x. x ''id'') ` set (getTasksLocal broken_disk)
   \<and> fst (POST_tasks (Some (update_body retitle_payload)) broken_disk) = Bad_request"
proof -
  have h: "pgClient pg_down = None \<or> pg_fault pg_down (pg_calls pg_down)"
    "tasks_file garbled = Missing \<or> tasks_file garbled = Garbage \<or> fs_read_fault garbled"
    "\<not> usePostgres broken_disk" "fs_write_fault broken_disk"
    by (simp_all add: pg_down_def garbled_def broken_disk_def file_world_def)
  have i: "retitle_payload ''id'' \<in> (\<lambda>x. x ''id'') ` set (getTasksLocal broken_disk)"
    by (simp add: broken_disk_def file_world_def getTasksLocal_def retitle_payload_def task1_def)
  note a = store_errors [OF h, of clawd_payload "Some (JNum 1)" _ _ clawd_payload]
  note b = store_errors [OF h, of clawd_payload "Some (JNum 1)" _ _ retitle_payload]
  from a b h i show ?thesis
    by simp
qed

text \<open>
  The claim as stated fails for the write of the file store: the error leaves
  \<open>saveTasksLocal\<close> as an exception, and the request is answered with status 400, not
  with \<^verbatim>\<open>success: false\<close>.
\<close>

theorem store_write_counterexample:
  "\<not> usePostgres broken_disk \<and> fs_write_fault broken_disk
   \<and> saveTasksLocal [task1] broken_disk = Inl IOError
   \<and> fst (POST_tasks (Some (add_body clawd_payload)) broken_disk) = Bad_request"
proof -
  have h: "\<not> usePostgres broken_disk" "fs_write_fault broken_disk"
    by (simp_all add: broken_disk_def file_world_def)
  then show ?thesis
    by (simp add: POST_tasks_def POST_add add_action_def saveTasksLocal_def Date_now_def Let_def)
qed

lemma broadcastTasks_pgClient: "pgClient (broadcastTasks x) = pgClient x"
  by (simp add: broadcastTasks_eq getTasksPG_eq split: option.splits)

lemma broadcastTasks_untimed:
  "untimed_io (io (broadcastTasks (x\<lparr>ticks := k\<rparr>))) = untimed_io (io (broadcastTasks x))"
  by (auto simp: broadcastTasks_eq getTasksPG_eq untimed_io_def emit_def untimed_def fun_eq_iff
        split: option.splits)

lemma broadcastTasks_emits:
  assumes "usePostgres x" and "io x = Some s1"
  shows "io (broadcastTasks x) =
     Some (emit (Tasks_update (fst (getTasksPG x)) (clock x (ticks x))) s1)"
  using assms by (simp add: broadcastTasks_eq getTasksPG_eq split: option.splits)

lemma on_task_update_eq:
  assumes "usePostgres w"
  shows "on_task_update data w =
     (case task data of
        None \<Rightarrow> w
      | Some p \<Rightarrow>
          broadcastTasks (snd (saveTaskPG (p(''updatedAt'' \<mapsto> JNum (clock w (ticks w))))
                                 (w\<lparr>ticks := Suc (ticks w)\<rparr>))))"
  using assms by (simp add: on_task_update_def Date_now_def split_def split: option.splits)

lemma POST_update_eq:
  assumes "usePostgres w"
  shows "snd (POST_tasks (Some (data\<lparr>action := Some (JStr ''update'')\<rparr>)) w) =
     (case task data of
        None \<Rightarrow> w\<lparr>ticks := Suc (ticks w)\<rparr>
      | Some p \<Rightarrow>
          (let r = saveTaskPG (p(''updatedAt'' \<mapsto> JNum (clock w (ticks w))))
                      (w\<lparr>ticks := Suc (ticks w)\<rparr>)
           in if fst r then broadcastTasks ((snd r)\<lparr>ticks := Suc (ticks (snd r))\<rparr>)
              else (snd r)\<lparr>ticks := Suc (ticks (snd r))\<rparr>))"
    and "fst (POST_tasks (Some (data\<lparr>action := Some (JStr ''update'')\<rparr>)) w) = Success True ts
         \<Longrightarrow> \<exists>p. task data = Some p \<and>
               fst (saveTaskPG (p(''updatedAt'' \<mapsto> JNum (clock w (ticks w))))
                      (w\<lparr>ticks := Suc (ticks w)\<rparr>))"
  using assms
  by (auto simp: POST_tasks_def POST_tasks_try_def update_action_def Date_now_def split_def
        Let_def split: option.splits if_splits)

lemma on_task_add_eq:
  assumes "usePostgres w"
  shows "on_task_add data w =
     (case task data of
        None \<Rightarrow> w
      | Some p \<Rightarrow>
          broadcastTasks
            (snd (saveTaskPG (p(''createdAt'' \<mapsto> JNum (clock w (ticks w)),
                                ''updatedAt'' \<mapsto> JNum (clock w (Suc (ticks w)))))
                    (w\<lparr>ticks := Suc (Suc (ticks w))\<rparr>))))"
  using assms by (simp add: on_task_add_def Date_now_def split_def split: option.splits)

lemma POST_add_eq:
  assumes "usePostgres w"
  shows "snd (POST_tasks (Some (data\<lparr>action := Some (JStr ''add'')\<rparr>)) w) =
     (case task data of
        None \<Rightarrow> w\<lparr>ticks := Suc (ticks w)\<rparr>
      | Some p \<Rightarrow>
          (let r = saveTaskPG (p(''createdAt'' \<mapsto> JNum (clock w (ticks w)),
                                 ''updatedAt'' \<mapsto> JNum (clock w (Suc (ticks w)))))
                      (w\<lparr>ticks := Suc (Suc (ticks w))\<rparr>)
           in if fst r then broadcastTasks ((snd r)\<lparr>ticks := Suc (ticks (snd r))\<rparr>)
              else (snd r)\<lparr>ticks := Suc (ticks (snd r))\<rparr>))"
    and "fst (POST_tasks (Some (data\<lparr>action := Some (JStr ''add'')\<rparr>)) w) = Success True ts
         \<Longrightarrow> \<exists>p. task data = Some p \<and>
               fst (saveTaskPG (p(''createdAt'' \<mapsto> JNum (clock w (ticks w)),
                                  ''updatedAt'' \<mapsto> JNum (clock w (Suc (ticks w)))))
                      (w\<lparr>ticks := Suc (Suc (ticks w))\<rparr>))"
  using assms
  by (auto simp: POST_tasks_def POST_tasks_try_def add_action_def Date_now_def split_def
        Let_def split: option.splits if_splits)

lemma on_task_delete_eq:
  assumes "usePostgres w"
  shows "on_task_delete data w =
     (if truthy (taskId data) then broadcastTasks (snd (deleteTaskPG (taskId data) w)) else w)"
  using assms by (simp add: on_task_delete_def split_def)

lemma POST_delete_eq:
  assumes "usePostgres w"
  shows "snd (POST_tasks (Some (data\<lparr>action := Some (JStr ''delete'')\<rparr>)) w) =
     (if truthy (taskId data) then
        (let r = deleteTaskPG (taskId data) w
         in if fst r then broadcastTasks ((snd r)\<lparr>ticks := Suc (ticks (snd r))\<rparr>)
            else (snd r)\<lparr>ticks := Suc (ticks (snd r))\<rparr>)
      else w\<lparr>ticks := Suc (ticks w)\<rparr>)"
    and "fst (POST_tasks (Some (data\<lparr>action := Some (JStr ''delete'')\<rparr>)) w) = Success True ts
         \<Longrightarrow> truthy (taskId data) \<and> fst (deleteTaskPG (taskId data) w)"
  using assms
  by (auto simp: POST_tasks_def POST_tasks_try_def delete_action_def Date_now_def split_def
        Let_def split: option.splits if_splits)

lemma socket_local:
  "\<not> usePostgres v \<Longrightarrow>
   on_task_update data v = v \<and> on_task_add data v = v \<and> on_task_delete data v = v"
  by (simp add: on_task_update_def on_task_add_def on_task_delete_def)

lemma getTasksPG_table_list: "fst (getTasksPG x) = table_list x"
  by (simp add: getTasksPG_eq table_list_def split: option.splits)

lemma write_then_broadcast:
  assumes "usePostgres w" and "same_env w w2" and "clawd_or_same (io w) (io w2)"
  shows "pgClient (broadcastTasks w2) = pgClient w2
       \<and> io (broadcastTasks w2) =
           map_option (emit (Tasks_update (table_list w2) (clock w (ticks w2)))) (io w2)
       \<and> (\<forall>s c. io w = Some s \<and> c \<in> set (sockets s) \<longrightarrow>
            (\<exists>s1. io w2 = Some s1
               \<and> inbox (the (io (broadcastTasks w2))) c =
                   inbox s1 c @ [Tasks_update (table_list w2) (clock w (ticks w2))]))"
proof -
  from assms(1,2) have up: "usePostgres w2" and ck: "clock w2 = clock w"
    by (simp_all add: same_env_def)
  have i: "io (broadcastTasks w2) =
      map_option (emit (Tasks_update (table_list w2) (clock w (ticks w2)))) (io w2)"
    by (simp add: broadcastTasks_eq up ck getTasksPG_table_list split: option.splits)
  have "\<exists>s1. io w2 = Some s1
               \<and> inbox (the (io (broadcastTasks w2))) c =
                   inbox s1 c @ [Tasks_update (table_list w2) (clock w (ticks w2))]"
    if "io w = Some s" and "c \<in> set (sockets s)" for s c
  proof -
    from assms(3) that(1) obtain s1 where s1: "io w2 = Some s1" and "sockets s1 = sockets s"
      by (auto simp: clawd_or_same_def emit_def)
    with that(2) show ?thesis
      by (simp add: i emit_inbox)
  qed
  with i show ?thesis
    by (simp add: broadcastTasks_pgClient)
qed

text \<open>
  C7, as amended. In PostgreSQL mode each realtime operation leaves the same table as the
  POST action of the same name on the same payload, and when the POST succeeds the sessions
  are sent the same events by both, timestamps apart. Whether or not its write succeeded,
  the realtime operation then reads the table as the write left it and sends that list
  (the empty list if the query fails), stamped with the next reading of the clock, in one
  \<^verbatim>\<open>tasks:update\<close> event that every connected session receives last; before it the
  channel holds what the write left there, which is what was there before and at most one
  assignment notification. In local mode the three realtime operations do nothing.
\<close>

theorem realtime_same_as_http:
  assumes "usePostgres w" and "\<not> usePostgres v"
  shows "pgClient (on_task_update data w) =
           pgClient (snd (POST_tasks (Some (data\<lparr>action := Some (JStr ''update'')\<rparr>)) w))
       \<and> pgClient (on_task_add data w) =
           pgClient (snd (POST_tasks (Some (data\<lparr>action := Some (JStr ''add'')\<rparr>)) w))
       \<and> pgClient (on_task_delete data w) =
           pgClient (snd (POST_tasks (Some (data\<lparr>action := Some (JStr ''delete'')\<rparr>)) w))
       \<and> (fst (POST_tasks (Some (data\<lparr>action := Some (JStr ''update'')\<rparr>)) w) = Success True ts
            \<longrightarrow> untimed_io (io (on_task_update data w)) =
                untimed_io (io (snd (POST_tasks
                  (Some (data\<lparr>action := Some (JStr ''update'')\<rparr>)) w))))
       \<and> (fst (POST_tasks (Some (data\<lparr>action := Some (JStr ''add'')\<rparr>)) w) = Success True ts
            \<longrightarrow> untimed_io (io (on_task_add data w)) =
                untimed_io (io (snd (POST_tasks
                  (Some (data\<lparr>action := Some (JStr ''add'')\<rparr>)) w))))
       \<and> (fst (POST_tasks (Some (data\<lparr>action := Some (JStr ''delete'')\<rparr>)) w) = Success True ts
            \<longrightarrow> untimed_io (io (on_task_delete data w)) =
                untimed_io (io (snd (POST_tasks
                  (Some (data\<lparr>action := Some (JStr ''delete'')\<rparr>)) w))))
       \<and> (\<forall>p b w2. task data = Some p
              \<and> saveTaskPG (p(''updatedAt'' \<mapsto> JNum (clock w (ticks w))))
                   (w\<lparr>ticks := Suc (ticks w)\<rparr>) = (b, w2) \<longrightarrow>
            clawd_or_same (io w) (io w2)
          \<and> pgClient (on_task_update data w) = pgClient w2
          \<and> io (on_task_update data w) =
              map_option (emit (Tasks_update (table_list w2) (clock w (ticks w2)))) (io w2)
          \<and> (\<forall>s c. io w = Some s \<and> c \<in> set (sockets s) \<longrightarrow>
               (\<exists>s1. io w2 = Some s1
                  \<and> inbox (the (io (on_task_update data w))) c =
                      inbox s1 c @ [Tasks_update (table_list w2) (clock w (ticks w2))])))
       \<and> (\<forall>p b w2. task data = Some p
              \<and> saveTaskPG (p(''createdAt'' \<mapsto> JNum (clock w (ticks w)),
                              ''updatedAt'' \<mapsto> JNum (clock w (Suc (ticks w)))))
                   (w\<lparr>ticks := Suc (Suc (ticks w))\<rparr>) = (b, w2) \<longrightarrow>
            clawd_or_same (io w) (io w2)
          \<and> pgClient (on_task_add data w) = pgClient w2
          \<and> io (on_task_add data w) =
              map_option (emit (Tasks_update (table_list w2) (clock w (ticks w2)))) (io w2)
          \<and> (\<forall>s c. io w = Some s \<and> c \<in> set (sockets s) \<longrightarrow>
               (\<exists>s1. io w2 = Some s1
                  \<and> inbox (the (io (on_task_add data w))) c =
                      inbox s1 c @ [Tasks_update (table_list w2) (clock w (ticks w2))])))
       \<and> (\<forall>b w2. truthy (taskId data) \<and> deleteTaskPG (taskId data) w = (b, w2) \<longrightarrow>
            io w2 = io w \<and> ticks w2 = ticks w
          \<and> pgClient (on_task_delete data w) = pgClient w2
          \<and> io (on_task_delete data w) =
              map_option (emit (Tasks_update (table_list w2) (clock w (ticks w)))) (io w)
          \<and> (\<forall>s c. io w = Some s \<and> c \<in> set (sockets s) \<longrightarrow>
               inbox (the (io (on_task_delete data w))) c =
                 inbox s c @ [Tasks_update (table_list w2) (clock w (ticks w))]))
       \<and> on_task_update data v = v \<and> on_task_add data v = v \<and> on_task_delete data v = v"
proof -
  note ou = on_task_update_eq [OF assms(1)] and pu = POST_update_eq [OF assms(1)]
  note oa = on_task_add_eq [OF assms(1)] and pa = POST_add_eq [OF assms(1)]
  note od = on_task_delete_eq [OF assms(1)] and pd = POST_delete_eq [OF assms(1)]
  have c1: "pgClient (on_task_update data w) =
      pgClient (snd (POST_tasks (Some (data\<lparr>action := Some (JStr ''update'')\<rparr>)) w))"
    by (simp add: ou pu(1) Let_def broadcastTasks_pgClient split: option.splits)
  have c2: "pgClient (on_task_add data w) =
      pgClient (snd (POST_tasks (Some (data\<lparr>action := Some (JStr ''add'')\<rparr>)) w))"
    by (simp add: oa pa(1) Let_def broadcastTasks_pgClient split: option.splits)
  have c3: "pgClient (on_task_delete data w) =
      pgClient (snd (POST_tasks (Some (data\<lparr>action := Some (JStr ''delete'')\<rparr>)) w))"
    by (simp add: od pd(1) Let_def broadcastTasks_pgClient)
  have c4: "fst (POST_tasks (Some (data\<lparr>action := Some (JStr ''update'')\<rparr>)) w) = Success True ts
      \<longrightarrow> untimed_io (io (on_task_update data w)) =
          untimed_io (io (snd (POST_tasks (Some (data\<lparr>action := Some (JStr ''update'')\<rparr>)) w)))"
    using pu(2) [of data ts] by (auto simp: ou pu(1) Let_def broadcastTasks_untimed)
  have c5: "fst (POST_tasks (Some (data\<lparr>action := Some (JStr ''add'')\<rparr>)) w) = Success True ts
      \<longrightarrow> untimed_io (io (on_task_add data w)) =
          untimed_io (io (snd (POST_tasks (Some (data\<lparr>action := Some (JStr ''add'')\<rparr>)) w)))"
    using pa(2) [of data ts] by (auto simp: oa pa(1) Let_def broadcastTasks_untimed)
  have c6: "fst (POST_tasks (Some (data\<lparr>action := Some (JStr ''delete'')\<rparr>)) w) = Success True ts
      \<longrightarrow> untimed_io (io (on_task_delete data w)) =
          untimed_io (io (snd (POST_tasks (Some (data\<lparr>action := Some (JStr ''delete'')\<rparr>)) w)))"
    using pd(2) [of data ts] by (auto simp: od pd(1) Let_def broadcastTasks_untimed)
  have c7: "\<forall>p b w2. task data = Some p
              \<and> saveTaskPG (p(''updatedAt'' \<mapsto> JNum (clock w (ticks w))))
                   (w\<lparr>ticks := Suc (ticks w)\<rparr>) = (b, w2) \<longrightarrow>
            clawd_or_same (io w) (io w2)
          \<and> pgClient (on_task_update data w) = pgClient w2
          \<and> io (on_task_update data w) =
              map_option (emit (Tasks_update (table_list w2) (clock w (ticks w2)))) (io w2)
          \<and> (\<forall>s c. io w = Some s \<and> c \<in> set (sockets s) \<longrightarrow>
               (\<exists>s1. io w2 = Some s1
                  \<and> inbox (the (io (on_task_update data w))) c =
                      inbox s1 c @ [Tasks_update (table_list w2) (clock w (ticks w2))]))"
  proof (intro allI impI, elim conjE)
    fix p b w2
    assume t: "task data = Some p"
      and r: "saveTaskPG (p(''updatedAt'' \<mapsto> JNum (clock w (ticks w))))
                (w\<lparr>ticks := Suc (ticks w)\<rparr>) = (b, w2)"
    from saveTaskPG_effects [OF r] have env: "same_env w w2" and cs: "clawd_or_same (io w) (io w2)"
      by simp_all
    have o: "on_task_update data w = broadcastTasks w2"
      by (simp add: ou t r)
    from write_then_broadcast [OF assms(1) env cs] cs
    show "clawd_or_same (io w) (io w2)
          \<and> pgClient (on_task_update data w) = pgClient w2
          \<and> io (on_task_update data w) =
              map_option (emit (Tasks_update (table_list w2) (clock w (ticks w2)))) (io w2)
          \<and> (\<forall>s c. io w = Some s \<and> c \<in> set (sockets s) \<longrightarrow>
               (\<exists>s1. io w2 = Some s1
                  \<and> inbox (the (io (on_task_update data w))) c =
                      inbox s1 c @ [Tasks_update (table_list w2) (clock w (ticks w2))]))"
      unfolding o by blast
  qed
  have c8: "\<forall>p b w2. task data = Some p
              \<and> saveTaskPG (p(''createdAt'' \<mapsto> JNum (clock w (ticks w)),
                              ''updatedAt'' \<mapsto> JNum (clock w (Suc (ticks w)))))
                   (w\<lparr>ticks := Suc (Suc (ticks w))\<rparr>) = (b, w2) \<longrightarrow>
            clawd_or_same (io w) (io w2)
          \<and> pgClient (on_task_add data w) = pgClient w2
          \<and> io (on_task_add data w) =
              map_option (emit (Tasks_update (table_list w2) (clock w (ticks w2)))) (io w2)
          \<and> (\<forall>s c. io w = Some s \<and> c \<in> set (sockets s) \<longrightarrow>
               (\<exists>s1. io w2 = Some s1
                  \<and> inbox (the (io (on_task_add data w))) c =
                      inbox s1 c @ [Tasks_update (table_list w2) (clock w (ticks w2))]))"
  proof (intro allI impI, elim conjE)
    fix p b w2
    assume t: "task data = Some p"
      and r: "saveTaskPG (p(''createdAt'' \<mapsto> JNum (clock w (ticks w)),
                            ''updatedAt'' \<mapsto> JNum (clock w (Suc (ticks w)))))
                (w\<lparr>ticks := Suc (Suc (ticks w))\<rparr>) = (b, w2)"
    from saveTaskPG_effects [OF r] have env: "same_env w w2" and cs: "clawd_or_same (io w) (io w2)"
      by simp_all
    have o: "on_task_add data w = broadcastTasks w2"
      by (simp add: oa t r)
    from write_then_broadcast [OF assms(1) env cs] cs
    show "clawd_or_same (io w) (io w2)
          \<and> pgClient (on_task_add data w) = pgClient w2
          \<and> io (on_task_add data w) =
              map_option (emit (Tasks_update (table_list w2) (clock w (ticks w2)))) (io w2)
          \<and> (\<forall>s c. io w = Some s \<and> c \<in> set (sockets s) \<longrightarrow>
               (\<exists>s1. io w2 = Some s1
                  \<and> inbox (the (io (on_task_add data w))) c =
                      inbox s1 c @ [Tasks_update (table_list w2) (clock w (ticks w2))]))"
      unfolding o by blast
  qed
  have c9: "\<forall>b w2. truthy (taskId data) \<and> deleteTaskPG (taskId data) w = (b, w2) \<longrightarrow>
            io w2 = io w \<and> ticks w2 = ticks w
          \<and> pgClient (on_task_delete data w) = pgClient w2
          \<and> io (on_task_delete data w) =
              map_option (emit (Tasks_update (table_list w2) (clock w (ticks w)))) (io w)
          \<and> (\<forall>s c. io w = Some s \<and> c \<in> set (sockets s) \<longrightarrow>
               inbox (the (io (on_task_delete data w))) c =
                 inbox s c @ [Tasks_update (table_list w2) (clock w (ticks w))])"
  proof (intro allI impI, elim conjE)
    fix b w2
    assume t: "truthy (taskId data)" and r: "deleteTaskPG (taskId data) w = (b, w2)"
    from deleteTaskPG_effects [OF r] have env: "same_env w w2" and i: "io w2 = io w"
      and k: "ticks w2 = ticks w"
      by simp_all
    have cs: "clawd_or_same (io w) (io w2)"
      by (simp add: i)
    have o: "on_task_delete data w = broadcastTasks w2"
      by (simp add: od t r)
    from write_then_broadcast [OF assms(1) env cs] i k
    show "io w2 = io w \<and> ticks w2 = ticks w
          \<and> pgClient (on_task_delete data w) = pgClient w2
          \<and> io (on_task_delete data w) =
              map_option (emit (Tasks_update (table_list w2) (clock w (ticks w)))) (io w)
          \<and> (\<forall>s c. io w = Some s \<and> c \<in> set (sockets s) \<longrightarrow>
               inbox (the (io (on_task_delete data w))) c =
                 inbox s c @ [Tasks_update (table_list w2) (clock w (ticks w))])"
      unfolding o by auto
  qed
  note c10 = socket_local [OF assms(2), of data]
  from c1 c2 c3 c4 c5 c6 c7 c8 c9 c10 show ?thesis
    by (intro conjI) blast+
qed

theorem realtime_same_as_http_witness:
  "usePostgres pg_world \<and> \<not> usePostgres file_world
   \<and> fst (POST_tasks (Some (delete_body 1)) pg_world) = Success True 1700000000000
   \<and> map row_id (rows (the (pgClient (on_task_delete (delete_body 1) pg_world)))) = [2]
   \<and> map row_id (rows (the (pgClient (snd (POST_tasks (Some (delete_body 1)) pg_world))))) = [2]
   \<and> untimed_io (io (on_task_delete (delete_body 1) pg_world)) =
       untimed_io (io (snd (POST_tasks (Some (delete_body 1)) pg_world)))
   \<and> fst (saveTaskPG (retitle_payload(''updatedAt'' \<mapsto> JNum 1700000000000))
            (pg_world\<lparr>ticks := 1\<rparr>)) = False
   \<and> fst (POST_tasks (Some (update_body retitle_payload)) pg_world) = Success False 1700000000002
   \<and> inbox (the (io (snd (POST_tasks (Some (update_body retitle_payload)) pg_world)))) ''s1'' = []
   \<and> inbox (the (io (on_task_update (update_body retitle_payload) pg_world))) ''s1'' =
       [Tasks_update (all_tasks demo_table) 1700000000002]
   \<and> map (field ''id'') (all_tasks demo_table) = [Some (JNum 2), Some (JNum 1)]
   \<and> map (field ''title'') (all_tasks demo_table) = [Some (JStr ''Mail''), Some (JStr ''Deploy'')]
   \<and> on_task_add (add_body clawd_payload) file_world = file_world"
proof -
  have d: "(delete_body 1)\<lparr>action := Some (JStr ''delete'')\<rparr> = delete_body 1"
    "truthy (taskId (delete_body 1))"
    by (simp_all add: delete_body_def)
  have f: "fst (POST_tasks (Some (delete_body 1)) pg_world) = Success True 1700000000000"
    by (simp add: POST_tasks_def POST_tasks_try_def delete_body_def delete_action_def
          deleteTaskPG_eq pg_world_flags Date_now_def in_int4_def)
  have g: "map row_id (rows (the (pgClient (on_task_delete (delete_body 1) pg_world)))) = [2]"
    by (simp add: on_task_delete_eq pg_world_flags d broadcastTasks_pgClient deleteTaskPG_eq
          delete_body_def demo_serial row1_def row2_def in_int4_def)
  note r1 = realtime_same_as_http [OF pg_world_flags(1) file_world_flags(1),
      of "delete_body 1" 1700000000000, unfolded d]
  note r2 = realtime_same_as_http [OF pg_world_flags(1) file_world_flags(1),
      of "add_body clawd_payload" 0]
  note r3 = realtime_same_as_http [OF pg_world_flags(1) file_world_flags(1),
      of "update_body retitle_payload" 0]
  have a: "pgClient (on_task_delete (delete_body 1) pg_world) =
      pgClient (snd (POST_tasks (Some (delete_body 1)) pg_world))"
    using r1 by blast
  have b: "untimed_io (io (on_task_delete (delete_body 1) pg_world)) =
       untimed_io (io (snd (POST_tasks (Some (delete_body 1)) pg_world)))"
    using r1 f by blast
  have e: "on_task_add (add_body clawd_payload) file_world = file_world"
    using r2 by blast
  let ?w2 = "pg_world\<lparr>ticks := 2, pg_calls := 1\<rparr>"
  have q: "retitle_payload ''id'' = Some (JNum 1)"
    by (simp add: retitle_payload_def)
  have sv: "saveTaskPG (retitle_payload(''updatedAt'' \<mapsto> JNum (clock pg_world (ticks pg_world))))
        (pg_world\<lparr>ticks := Suc (ticks pg_world)\<rparr>) = (False, ?w2)"
    using saveTaskPG_update_branch [of "pg_world\<lparr>ticks := Suc (ticks pg_world)\<rparr>" demo_table
        "retitle_payload(''updatedAt'' \<mapsto> JNum (clock pg_world (ticks pg_world)))" 1]
    by (simp add: pg_world_def q)
  have tk: "task (update_body retitle_payload) = Some retitle_payload"
    by (simp add: update_body_def)
  from r3 have "\<forall>p b w2. task (update_body retitle_payload) = Some p
              \<and> saveTaskPG (p(''updatedAt'' \<mapsto> JNum (clock pg_world (ticks pg_world))))
                   (pg_world\<lparr>ticks := Suc (ticks pg_world)\<rparr>) = (b, w2) \<longrightarrow>
          io (on_task_update (update_body retitle_payload) pg_world) =
              map_option (emit (Tasks_update (table_list w2) (clock pg_world (ticks w2)))) (io w2)"
    by blast
  from this [rule_format, of retitle_payload False ?w2] tk sv
  have "io (on_task_update (update_body retitle_payload) pg_world) =
      map_option (emit (Tasks_update (table_list ?w2) (clock pg_world (ticks ?w2)))) (io ?w2)"
    by blast
  then have h: "inbox (the (io (on_task_update (update_body retitle_payload) pg_world))) ''s1'' =
       [Tasks_update (all_tasks demo_table) 1700000000002]"
    by (simp add: pg_world_flags table_list_def emit_inbox demo_server_def)
  have sf: "fst (saveTaskPG (retitle_payload(''updatedAt'' \<mapsto> JNum 1700000000000))
            (pg_world\<lparr>ticks := 1\<rparr>)) = False"
    using sv by (simp add: pg_world_flags)
  have pf: "fst (POST_tasks (Some (update_body retitle_payload)) pg_world) =
        Success False (clock pg_world (Suc (Suc (ticks pg_world))))
      \<and> pgClient (snd (POST_tasks (Some (update_body retitle_payload)) pg_world)) = Some demo_table
      \<and> io (snd (POST_tasks (Some (update_body retitle_payload)) pg_world)) = io pg_world"
    by (rule POST_update_postgres_fails [of pg_world demo_table retitle_payload 1])
      (simp_all add: pg_world_flags q)
  have p1: "fst (POST_tasks (Some (update_body retitle_payload)) pg_world) =
      Success False 1700000000002"
    using pf by (simp add: pg_world_flags)
  have p2: "inbox (the (io (snd (POST_tasks (Some (update_body retitle_payload)) pg_world))))
      ''s1'' = []"
    using pf by (simp add: pg_world_flags demo_server_def)
  have l: "map (field ''id'') (all_tasks demo_table) = [Some (JNum 2), Some (JNum 1)]"
    "map (field ''title'') (all_tasks demo_table) = [Some (JStr ''Mail''), Some (JStr ''Deploy'')]"
    by (simp_all add: all_tasks_def select_all_def demo_table_def row1_def row2_def field_def
          row_to_task_def)
  from f g a b e sf p1 p2 h l show ?thesis
    by (simp add: pg_world_flags file_world_flags)
qed

text \<open>
  The claim as stated fails in local mode: \<^verbatim>\<open>task:add\<close> leaves the file as it was,
  where the POST action adds the task.
\<close>

theorem realtime_file_counterexample:
  "\<not> usePostgres file_world
   \<and> length (getTasksLocal file_world) = 2
   \<and> length (getTasksLocal (on_task_add (add_body clawd_payload) file_world)) = 2
   \<and> fst (POST_tasks (Some (add_body clawd_payload)) file_world) = Success True 1700000000003
   \<and> length (getTasksLocal (snd (POST_tasks (Some (add_body clawd_payload)) file_world))) = 3"
  by (simp add: on_task_add_def POST_tasks_def POST_add add_action_local [OF file_world_flags(1,2)]
        Date_now_def file_world_flags file_world_tasks getTasksLocal_Doc)

end
